theory Spec2Isabelle
  imports Complex_Main
begin

section \<open>Tensors\<close>

text \<open>
  The program is \<^verbatim>\<open>src/lib/model.py\<close>. Its values are torch tensors: a shape and the
  elements in row-major (contiguous) order. Elements are modelled as real numbers, so
  rounding of the floating-point kernels is outside the model. The file carries the
  markers of an unfinished merge; the classes and functions modelled here are read as
  they stand between them.
\<close>

datatype error =
  AssertionError | TypeError | ValueError | RuntimeError | IndexError | KeyError
  | ZeroDivisionError

record tensor =
  shape :: "nat list"
  data :: "real list"

definition bind_e :: "error + 'a \<Rightarrow> ('a \<Rightarrow> error + 'b) \<Rightarrow> error + 'b" where
  "bind_e m f = (case m of Inl e \<Rightarrow> Inl e | Inr x \<Rightarrow> f x)"

definition numel :: "nat list \<Rightarrow> nat" where
  "numel s = prod_list s"

text \<open>\<^verbatim>\<open>t.size()[i]\<close>: indexing the size past the rank raises IndexError.\<close>

definition tensor_size :: "tensor \<Rightarrow> nat \<Rightarrow> error + int" where
  "tensor_size t i = (if i < length (shape t) then Inr (int (shape t ! i)) else Inl IndexError)"

text \<open>Element \<open>[n, c, h, w]\<close> of a 4-D tensor and element \<open>[b, i, j]\<close> of a 3-D tensor.\<close>

definition get4 :: "tensor \<Rightarrow> nat \<Rightarrow> nat \<Rightarrow> nat \<Rightarrow> nat \<Rightarrow> real" where
  "get4 t n c h w =
     data t ! (((n * (shape t ! 1) + c) * (shape t ! 2) + h) * (shape t ! 3) + w)"

definition get3 :: "tensor \<Rightarrow> nat \<Rightarrow> nat \<Rightarrow> nat \<Rightarrow> real" where
  "get3 t b i j = data t ! ((b * (shape t ! 1) + i) * (shape t ! 2) + j)"

text \<open>The contiguous 4-D tensor of shape \<open>[N, C, H, W]\<close> whose element \<open>[n, c, h, w]\<close> is \<open>f n c h w\<close>.\<close>

definition rows :: "nat \<Rightarrow> (nat \<Rightarrow> 'a list) \<Rightarrow> 'a list" where
  "rows n g = concat (map g [0..<n])"

definition mk4 :: "nat \<Rightarrow> nat \<Rightarrow> nat \<Rightarrow> nat \<Rightarrow> (nat \<Rightarrow> nat \<Rightarrow> nat \<Rightarrow> nat \<Rightarrow> real) \<Rightarrow> tensor" where
  "mk4 N C H W f =
     \<lparr>shape = [N, C, H, W],
      data = rows N (\<lambda>n. rows C (\<lambda>c. rows H (\<lambda>h. map (\<lambda>w. f n c h w) [0..<W])))\<rparr>"

section \<open>SamePad2d\<close>

text \<open>
  \<^verbatim>\<open>math.ceil(float(a) / float(b))\<close> on Python integers: division by zero raises.
\<close>

definition py_ceil_div :: "int \<Rightarrow> int \<Rightarrow> error + int" where
  "py_ceil_div a b = (if b = 0 then Inl ZeroDivisionError else Inr (- ((- a) div b)))"

text \<open>
  \<^verbatim>\<open>F.pad(input, (pad_left, pad_right, pad_top, pad_bottom), 'constant', 0)\<close> on an
  \<open>[N, C, H, W]\<close> tensor: the first pair pads the last dimension, the second pair the
  dimension before it; a negative pad crops; a negative resulting size raises.
\<close>

definition F_pad :: "tensor \<Rightarrow> int \<times> int \<times> int \<times> int \<Rightarrow> error + tensor" where
  "F_pad t p =
     (case p of (pad_left, pad_right, pad_top, pad_bottom) \<Rightarrow>
        (case shape t of
           [N, C, H, W] \<Rightarrow>
             (let H' = int H + pad_top + pad_bottom; W' = int W + pad_left + pad_right
              in if H' < 0 \<or> W' < 0 then Inl RuntimeError
                 else Inr (mk4 N C (nat H') (nat W')
                        (\<lambda>n c i j.
                           let si = int i - pad_top; sj = int j - pad_left
                           in if 0 \<le> si \<and> si < int H \<and> 0 \<le> sj \<and> sj < int W
                              then get4 t n c (nat si) (nat sj) else 0)))
         | _ \<Rightarrow> Inl RuntimeError))"

text \<open>
  The arithmetic of \<^verbatim>\<open>SamePad2d.forward\<close>, lines 21 to 30: from
  \<^verbatim>\<open>in_width = input.size()[2]\<close> and \<^verbatim>\<open>in_height = input.size()[3]\<close> to the
  tuple \<^verbatim>\<open>(pad_left, pad_right, pad_top, pad_bottom)\<close>.
\<close>

definition SamePad2d_padding ::
  "int \<times> int \<Rightarrow> int \<times> int \<Rightarrow> int \<Rightarrow> int \<Rightarrow> error + (int \<times> int \<times> int \<times> int)" where
  "SamePad2d_padding kernel_size stride in_width in_height =
     bind_e (py_ceil_div in_width (fst stride)) (\<lambda>out_width.
     bind_e (py_ceil_div in_height (snd stride)) (\<lambda>out_height.
       let pad_along_width = (out_width - 1) * fst stride + fst kernel_size - in_width;
           pad_along_height = (out_height - 1) * snd stride + snd kernel_size - in_height;
           pad_left = pad_along_width div 2;
           pad_top = pad_along_height div 2;
           pad_right = pad_along_width - pad_left;
           pad_bottom = pad_along_height - pad_top
       in Inr (pad_left, pad_right, pad_top, pad_bottom)))"

definition SamePad2d_forward :: "int \<times> int \<Rightarrow> int \<times> int \<Rightarrow> tensor \<Rightarrow> error + tensor" where
  "SamePad2d_forward kernel_size stride input =
     bind_e (tensor_size input 2) (\<lambda>in_width.
     bind_e (tensor_size input 3) (\<lambda>in_height.
     bind_e (SamePad2d_padding kernel_size stride in_width in_height) (\<lambda>p.
       F_pad input p)))"

text \<open>
  The total padding \<^verbatim>\<open>SamePad2d.forward\<close> computes along one dimension of length \<open>n\<close>
  (\<^verbatim>\<open>pad_along_width\<close>, \<^verbatim>\<open>pad_along_height\<close>), in closed form; used to state the
  facts below.
\<close>

definition pad_along :: "int \<Rightarrow> int \<Rightarrow> int \<Rightarrow> int" where
  "pad_along k s n = (- ((- n) div s) - 1) * s + k - n"

section \<open>Modules\<close>

text \<open>
  A module value records the constructor arguments of an \<^verbatim>\<open>nn.Module\<close>. For
  \<^verbatim>\<open>nn.Conv2d\<close> these are in_channels, out_channels, kernel_size, stride, padding; for
  \<^verbatim>\<open>nn.MaxPool2d\<close> kernel_size and stride; for \<^verbatim>\<open>nn.Linear\<close> in_features and
  out_features; for \<^verbatim>\<open>nn.Softmax\<close> dim. \<^verbatim>\<open>Bottleneck\<close> lists its attributes in the order of its constructor:
  conv1, bn1, padding2, conv2, bn2, conv3, bn3, relu, downsample, stride.
\<close>

datatype module =
    Conv2d nat nat nat nat nat
  | BatchNorm2d nat
  | ReLU
  | MaxPool2d nat nat
  | Linear nat nat
  | Softmax nat
  | SamePad2d "int \<times> int" "int \<times> int"
  | Bottleneck module module module module module module module module "module option" nat
  | Sequential "module list"

text \<open>
  The learned parameters of a layer are not part of the module value: torch keeps them
  under the attribute path of the layer (the keys of \<^verbatim>\<open>state_dict()\<close>). The numerics
  of the parametrised library layers are a parameter \<open>num\<close> of the model: \<open>num path m x i\<close>
  is element \<open>i\<close> of the output of layer \<open>m\<close>, registered under \<open>path\<close>, on input \<open>x\<close>.
\<close>

datatype key = Attr string | Idx nat

type_synonym numerics = "key list \<Rightarrow> module \<Rightarrow> tensor \<Rightarrow> nat \<Rightarrow> real"

text \<open>\<^verbatim>\<open>torch.nn.modules.utils._pair\<close> on an integer.\<close>

definition pair_of :: "int \<Rightarrow> int \<times> int" where
  "pair_of k = (k, k)"

definition SamePad2d_init :: "int \<Rightarrow> int \<Rightarrow> module" where
  "SamePad2d_init kernel_size stride = SamePad2d (pair_of kernel_size) (pair_of stride)"

subsection \<open>Library layers\<close>

text \<open>
  Output length of a convolution or pooling window along one dimension, as torch
  documents it: \<open>floor((n + 2 p - k) / s) + 1\<close>; a window larger than the padded input, a
  zero stride or a zero kernel raises.
\<close>

definition conv_out :: "nat \<Rightarrow> nat \<Rightarrow> nat \<Rightarrow> nat \<Rightarrow> error + nat" where
  "conv_out n k s p =
     (if s = 0 \<or> k = 0 \<or> n + 2 * p < k then Inl RuntimeError
      else Inr ((n + 2 * p - k) div s + 1))"

text \<open>
  The shape a library layer returns, or the error it raises. A module is in training
  mode after its construction, and nothing in the program modelled here changes that:
  batch normalisation then needs more than one value per channel and raises ValueError
  on an input with \<open>N H W = 1\<close>; it raises ValueError on an input that is not 4-D too. A
  convolution without output channels is refused.
\<close>

fun out_shape :: "module \<Rightarrow> nat list \<Rightarrow> error + nat list" where
  "out_shape (Conv2d cin cout k s p) [N, C, H, W] =
     (if cout = 0 \<or> C \<noteq> cin then Inl RuntimeError
      else bind_e (conv_out H k s p) (\<lambda>H'.
           bind_e (conv_out W k s p) (\<lambda>W'. Inr [N, cout, H', W'])))"
| "out_shape (MaxPool2d k s) [N, C, H, W] =
     bind_e (conv_out H k s 0) (\<lambda>H'.
     bind_e (conv_out W k s 0) (\<lambda>W'. Inr [N, C, H', W']))"
| "out_shape (BatchNorm2d c) [N, C, H, W] =
     (if N * H * W = 1 then Inl ValueError
      else if C \<noteq> c then Inl RuntimeError
      else Inr [N, C, H, W])"
| "out_shape (BatchNorm2d c) sh = Inl ValueError"
| "out_shape (Linear fin fout) sh =
     (if sh \<noteq> [] \<and> last sh = fin then Inr (butlast sh @ [fout]) else Inl RuntimeError)"
| "out_shape ReLU sh = Inr sh"
| "out_shape _ _ = Inl RuntimeError"

definition lib_layer :: "numerics \<Rightarrow> key list \<Rightarrow> module \<Rightarrow> tensor \<Rightarrow> error + tensor" where
  "lib_layer num path m x =
     bind_e (out_shape m (shape x)) (\<lambda>s.
       Inr \<lparr>shape = s, data = map (num path m x) [0..<numel s]\<rparr>)"

definition F_relu :: "tensor \<Rightarrow> tensor" where
  "F_relu x = x\<lparr>data := map (max 0) (data x)\<rparr>"

text \<open>
  \<^verbatim>\<open>nn.Softmax(dim=d)\<close>: along dimension \<open>d\<close> of size \<open>n\<close>, with \<open>inner\<close> the number
  of elements of one index of that dimension, the element at flat index \<open>idx\<close> is
  normalised against the \<open>n\<close> elements that differ from it in dimension \<open>d\<close> only.
\<close>

definition F_softmax :: "nat \<Rightarrow> tensor \<Rightarrow> error + tensor" where
  "F_softmax d t =
     (if d < length (shape t) then
        (let n = shape t ! d; inner = numel (drop (Suc d) (shape t))
         in Inr (t\<lparr>data :=
                   map (\<lambda>idx. exp (data t ! idx) /
                          sum_list (map (\<lambda>i. exp (data t !
                             ((idx div (n * inner) * n + i) * inner + idx mod inner))) [0..<n]))
                     [0..<length (data t)]\<rparr>))
      else Inl IndexError)"

text \<open>
  \<^verbatim>\<open>t.view(*dims)\<close> on a contiguous tensor: the elements stay, the shape changes. One
  dimension may be \<open>-1\<close> and is inferred; the element count must agree.
\<close>

definition view :: "tensor \<Rightarrow> int list \<Rightarrow> error + tensor" where
  "view t dims =
     (let n = int (numel (shape t)); known = prod_list (filter (\<lambda>d. d \<noteq> - 1) dims)
      in if list_ex (\<lambda>d. d < - 1) dims \<or> 1 < length (filter (\<lambda>d. d = - 1) dims)
         then Inl RuntimeError
         else if list_ex (\<lambda>d. d = - 1) dims then
           (if 0 < known \<and> n mod known = 0
            then Inr (t\<lparr>shape := map (\<lambda>d. nat (if d = - 1 then n div known else d)) dims\<rparr>)
            else Inl RuntimeError)
         else if known = n then Inr (t\<lparr>shape := map nat dims\<rparr>)
         else Inl RuntimeError)"

text \<open>
  \<^verbatim>\<open>t.permute(*dims).contiguous()\<close> on a 4-D tensor: dimension \<open>i\<close> of the result is
  dimension \<open>dims[i]\<close> of \<open>t\<close>, and the elements are laid out again in row-major order.
\<close>

definition index_of :: "nat list \<Rightarrow> nat \<Rightarrow> nat" where
  "index_of dims d = length (takeWhile (\<lambda>e. e \<noteq> d) dims)"

definition permute :: "tensor \<Rightarrow> nat list \<Rightarrow> error + tensor" where
  "permute t dims =
     (if length (shape t) = 4 \<and> length dims = 4 \<and> set dims = {0, 1, 2, 3} then
        Inr (mk4 (shape t ! (dims ! 0)) (shape t ! (dims ! 1))
                 (shape t ! (dims ! 2)) (shape t ! (dims ! 3))
               (\<lambda>i0 i1 i2 i3.
                  get4 t ([i0, i1, i2, i3] ! index_of dims 0) ([i0, i1, i2, i3] ! index_of dims 1)
                         ([i0, i1, i2, i3] ! index_of dims 2) ([i0, i1, i2, i3] ! index_of dims 3)))
      else Inl RuntimeError)"

fun list_max :: "real list \<Rightarrow> real" where
  "list_max [] = 0"
| "list_max (v # vs) = fold max vs v"

definition max_pool2d :: "nat \<Rightarrow> nat \<Rightarrow> tensor \<Rightarrow> error + tensor" where
  "max_pool2d k s x =
     bind_e (out_shape (MaxPool2d k s) (shape x)) (\<lambda>sh.
       Inr (mk4 (sh ! 0) (sh ! 1) (sh ! 2) (sh ! 3)
              (\<lambda>n c i j. list_max (concat (map (\<lambda>u. map (\<lambda>v. get4 x n c (i * s + u) (j * s + v))
                               [0..<k]) [0..<k])))))"

text \<open>\<^verbatim>\<open>F.upsample(x, scale_factor=f)\<close>, nearest neighbour (the default mode).\<close>

definition upsample :: "tensor \<Rightarrow> nat \<Rightarrow> error + tensor" where
  "upsample x scale_factor =
     (case shape x of
        [N, C, H, W] \<Rightarrow>
          Inr (mk4 N C (H * scale_factor) (W * scale_factor)
                 (\<lambda>n c i j. get4 x n c (i div scale_factor) (j div scale_factor)))
      | _ \<Rightarrow> Inl RuntimeError)"

text \<open>
  \<^verbatim>\<open>a + b\<close> on two 4-D tensors, with torch's broadcasting: along each dimension the
  sizes are equal or one of them is 1, otherwise the addition raises.
\<close>

definition bdim :: "nat \<Rightarrow> nat \<Rightarrow> nat option" where
  "bdim a b = (if a = b then Some a else if a = 1 then Some b else if b = 1 then Some a else None)"

definition bidx :: "nat \<Rightarrow> nat \<Rightarrow> nat" where
  "bidx d i = (if d = 1 then 0 else i)"

definition tensor_add :: "tensor \<Rightarrow> tensor \<Rightarrow> error + tensor" where
  "tensor_add a b =
     (case (shape a, shape b) of
        ([n1, c1, h1, w1], [n2, c2, h2, w2]) \<Rightarrow>
          (case (bdim n1 n2, bdim c1 c2, bdim h1 h2, bdim w1 w2) of
             (Some N, Some C, Some H, Some W) \<Rightarrow>
               Inr (mk4 N C H W (\<lambda>n c h w.
                      get4 a (bidx n1 n) (bidx c1 c) (bidx h1 h) (bidx w1 w)
                    + get4 b (bidx n2 n) (bidx c2 c) (bidx h2 h) (bidx w2 w)))
           | _ \<Rightarrow> Inl RuntimeError)
      | _ \<Rightarrow> Inl RuntimeError)"

text \<open>\<^verbatim>\<open>out += residual\<close>: in place, so the result keeps the shape of \<open>out\<close>.\<close>

definition tensor_iadd :: "tensor \<Rightarrow> tensor \<Rightarrow> error + tensor" where
  "tensor_iadd out residual =
     bind_e (tensor_add out residual) (\<lambda>r.
       if shape r = shape out then Inr r else Inl RuntimeError)"

subsection \<open>Calling a module\<close>

text \<open>
  \<^verbatim>\<open>m(x)\<close>. \<^verbatim>\<open>SamePad2d.forward\<close> and \<^verbatim>\<open>Bottleneck.forward\<close> are the program's own;
  \<^verbatim>\<open>nn.Sequential\<close> calls its members in order, member \<open>i\<close> being registered under
  the key \<open>i\<close>.
\<close>

fun forward :: "numerics \<Rightarrow> key list \<Rightarrow> module \<Rightarrow> tensor \<Rightarrow> error + tensor"
  and forward_seq :: "numerics \<Rightarrow> key list \<Rightarrow> nat \<Rightarrow> module list \<Rightarrow> tensor \<Rightarrow> error + tensor" where
  "forward num path (Sequential ms) x = forward_seq num path 0 ms x"
| "forward num path (SamePad2d kernel_size stride) x = SamePad2d_forward kernel_size stride x"
| "forward num path ReLU x = Inr (F_relu x)"
| "forward num path (Softmax d) x = F_softmax d x"
| "forward num path (MaxPool2d k s) x = max_pool2d k s x"
| "forward num path (Bottleneck conv1 bn1 padding2 conv2 bn2 conv3 bn3 relu_m downsample stride) x =
     bind_e (forward num (path @ [Attr ''conv1'']) conv1 x) (\<lambda>out.
     bind_e (forward num (path @ [Attr ''bn1'']) bn1 out) (\<lambda>out.
     bind_e (forward num (path @ [Attr ''relu'']) relu_m out) (\<lambda>out.
     bind_e (forward num (path @ [Attr ''padding2'']) padding2 out) (\<lambda>out.
     bind_e (forward num (path @ [Attr ''conv2'']) conv2 out) (\<lambda>out.
     bind_e (forward num (path @ [Attr ''bn2'']) bn2 out) (\<lambda>out.
     bind_e (forward num (path @ [Attr ''relu'']) relu_m out) (\<lambda>out.
     bind_e (forward num (path @ [Attr ''conv3'']) conv3 out) (\<lambda>out.
     bind_e (forward num (path @ [Attr ''bn3'']) bn3 out) (\<lambda>out.
     bind_e (case downsample of
               None \<Rightarrow> Inr x
             | Some d \<Rightarrow> forward num (path @ [Attr ''downsample'']) d x) (\<lambda>residual.
     bind_e (tensor_iadd out residual) (\<lambda>out.
       forward num (path @ [Attr ''relu'']) relu_m out)))))))))))"
| "forward num path (Conv2d cin cout k s p) x = lib_layer num path (Conv2d cin cout k s p) x"
| "forward num path (BatchNorm2d c) x = lib_layer num path (BatchNorm2d c) x"
| "forward num path (Linear fin fout) x = lib_layer num path (Linear fin fout) x"
| "forward_seq num path i [] x = Inr x"
| "forward_seq num path i (m # ms) x =
     bind_e (forward num (path @ [Idx i]) m x) (\<lambda>y. forward_seq num path (Suc i) ms y)"

text \<open>\<^verbatim>\<open>self.name(x)\<close>: the call of a submodule registered as attribute \<open>name\<close>.\<close>

definition call :: "numerics \<Rightarrow> key list \<Rightarrow> string \<Rightarrow> module \<Rightarrow> tensor \<Rightarrow> error + tensor" where
  "call num path name m x = forward num (path @ [Attr name]) m x"

section \<open>FPN\<close>

record FPN =
  out_channels :: nat
  C1 :: module
  C2 :: module
  C3 :: module
  C4 :: module
  C5 :: module
  P6 :: module
  P5_conv1 :: module
  P5_conv2 :: module
  P4_conv1 :: module
  P4_conv2 :: module
  P3_conv1 :: module
  P3_conv2 :: module
  P2_conv1 :: module
  P2_conv2 :: module

definition FPN_init :: "module \<Rightarrow> module \<Rightarrow> module \<Rightarrow> module \<Rightarrow> module \<Rightarrow> nat \<Rightarrow> FPN" where
  "FPN_init c1 c2 c3 c4 c5 oc =
     \<lparr>out_channels = oc, C1 = c1, C2 = c2, C3 = c3, C4 = c4, C5 = c5,
      P6 = MaxPool2d 1 2,
      P5_conv1 = Conv2d 2048 oc 1 1 0,
      P5_conv2 = Sequential [SamePad2d_init 3 1, Conv2d oc oc 3 1 0],
      P4_conv1 = Conv2d 1024 oc 1 1 0,
      P4_conv2 = Sequential [SamePad2d_init 3 1, Conv2d oc oc 3 1 0],
      P3_conv1 = Conv2d 512 oc 1 1 0,
      P3_conv2 = Sequential [SamePad2d_init 3 1, Conv2d oc oc 3 1 0],
      P2_conv1 = Conv2d 256 oc 1 1 0,
      P2_conv2 = Sequential [SamePad2d_init 3 1, Conv2d oc oc 3 1 0]\<rparr>"

definition FPN_forward :: "numerics \<Rightarrow> key list \<Rightarrow> FPN \<Rightarrow> tensor \<Rightarrow> error + tensor list" where
  "FPN_forward num path self x =
     bind_e (call num path ''C1'' (FPN.C1 self) x) (\<lambda>x.
     bind_e (call num path ''C2'' (FPN.C2 self) x) (\<lambda>x.
     let c2_out = x in
     bind_e (call num path ''C3'' (FPN.C3 self) x) (\<lambda>x.
     let c3_out = x in
     bind_e (call num path ''C4'' (FPN.C4 self) x) (\<lambda>x.
     let c4_out = x in
     bind_e (call num path ''C5'' (FPN.C5 self) x) (\<lambda>x.
     bind_e (call num path ''P5_conv1'' (P5_conv1 self) x) (\<lambda>p5_out.
     bind_e (call num path ''P4_conv1'' (P4_conv1 self) c4_out) (\<lambda>l4.
     bind_e (upsample p5_out 2) (\<lambda>u5.
     bind_e (tensor_add l4 u5) (\<lambda>p4_out.
     bind_e (call num path ''P3_conv1'' (P3_conv1 self) c3_out) (\<lambda>l3.
     bind_e (upsample p4_out 2) (\<lambda>u4.
     bind_e (tensor_add l3 u4) (\<lambda>p3_out.
     bind_e (call num path ''P2_conv1'' (P2_conv1 self) c2_out) (\<lambda>l2.
     bind_e (upsample p3_out 2) (\<lambda>u3.
     bind_e (tensor_add l2 u3) (\<lambda>p2_out.
     bind_e (call num path ''P5_conv2'' (P5_conv2 self) p5_out) (\<lambda>p5_out.
     bind_e (call num path ''P4_conv2'' (P4_conv2 self) p4_out) (\<lambda>p4_out.
     bind_e (call num path ''P3_conv2'' (P3_conv2 self) p3_out) (\<lambda>p3_out.
     bind_e (call num path ''P2_conv2'' (P2_conv2 self) p2_out) (\<lambda>p2_out.
     bind_e (call num path ''P6'' (P6 self) p5_out) (\<lambda>p6_out.
       Inr [p2_out, p3_out, p4_out, p5_out, p6_out]))))))))))))))))))))"

text \<open>
  A stride-2, kernel-size-1 downsample in the words of the specification: the cells with
  even row and even column index.
\<close>

definition downsample2 :: "tensor \<Rightarrow> tensor" where
  "downsample2 t =
     mk4 (shape t ! 0) (shape t ! 1) ((shape t ! 2 + 1) div 2) ((shape t ! 3 + 1) div 2)
       (\<lambda>n c i j. get4 t n c (2 * i) (2 * j))"

section \<open>ResNet\<close>

text \<open>\<^verbatim>\<open>Bottleneck.expansion\<close>.\<close>

definition expansion :: nat where
  "expansion = 4"

definition Bottleneck_init :: "nat \<Rightarrow> nat \<Rightarrow> nat \<Rightarrow> module option \<Rightarrow> module" where
  "Bottleneck_init inplanes planes stride downsample =
     Bottleneck (Conv2d inplanes planes 1 stride 0)
                (BatchNorm2d planes)
                (SamePad2d_init 3 1)
                (Conv2d planes planes 3 1 0)
                (BatchNorm2d planes)
                (Conv2d planes (planes * 4) 1 1 0)
                (BatchNorm2d (planes * 4))
                ReLU
                downsample
                stride"

record ResNet =
  inplanes :: nat
  layers :: "nat list"
  stage5 :: bool
  C1 :: module
  C2 :: module
  C3 :: module
  C4 :: module
  C5 :: "module option"

text \<open>
  \<^verbatim>\<open>ResNet.make_layer\<close> reads and updates \<^verbatim>\<open>self.inplanes\<close>: the model takes the
  current value and returns the new one beside the layer.
\<close>

definition make_layer :: "nat \<Rightarrow> nat \<Rightarrow> nat \<Rightarrow> nat \<Rightarrow> module \<times> nat" where
  "make_layer self_inplanes planes blocks stride =
     (let downsample =
            (if stride \<noteq> 1 \<or> self_inplanes \<noteq> planes * expansion
             then Some (Sequential [Conv2d self_inplanes (planes * expansion) 1 stride 0,
                                    BatchNorm2d (planes * expansion)])
             else None);
          layers0 = [Bottleneck_init self_inplanes planes stride downsample];
          self_inplanes = planes * expansion;
          layers1 = layers0 @ map (\<lambda>i. Bottleneck_init self_inplanes planes 1 None) [1..<blocks]
      in (Sequential layers1, self_inplanes))"

definition ResNet_init :: "string \<Rightarrow> bool \<Rightarrow> error + ResNet" where
  "ResNet_init architecture stage5_arg =
     (if architecture \<notin> set [''resnet50'', ''resnet101''] then Inl AssertionError
      else
        (case map_of [(''resnet50'', 6), (''resnet101'', 23)] architecture of
           None \<Rightarrow> Inl KeyError
         | Some n \<Rightarrow>
            (let inplanes0 = 64;
                 layers_v = [3, 4, n, 3];
                 c1 = Sequential [Conv2d 3 64 7 2 3, BatchNorm2d 64, ReLU,
                                  SamePad2d_init 3 2, MaxPool2d 3 2];
                 (c2, inplanes1) = make_layer inplanes0 64 (layers_v ! 0) 1;
                 (c3, inplanes2) = make_layer inplanes1 128 (layers_v ! 1) 2;
                 (c4, inplanes3) = make_layer inplanes2 256 (layers_v ! 2) 2;
                 (c5, inplanes4) =
                    (if stage5_arg
                     then (let (m, i) = make_layer inplanes3 512 (layers_v ! 3) 2 in (Some m, i))
                     else (None, inplanes3))
             in Inr \<lparr>inplanes = inplanes4, layers = layers_v, stage5 = stage5_arg,
                     C1 = c1, C2 = c2, C3 = c3, C4 = c4, C5 = c5\<rparr>)))"

text \<open>Calling \<^verbatim>\<open>None\<close> raises TypeError.\<close>

definition call_opt :: "numerics \<Rightarrow> key list \<Rightarrow> string \<Rightarrow> module option \<Rightarrow> tensor \<Rightarrow> error + tensor" where
  "call_opt num path name m x =
     (case m of None \<Rightarrow> Inl TypeError | Some m' \<Rightarrow> call num path name m' x)"

definition ResNet_forward :: "numerics \<Rightarrow> key list \<Rightarrow> ResNet \<Rightarrow> tensor \<Rightarrow> error + tensor" where
  "ResNet_forward num path self x =
     bind_e (call num path ''C1'' (ResNet.C1 self) x) (\<lambda>x.
     bind_e (call num path ''C2'' (ResNet.C2 self) x) (\<lambda>x.
     bind_e (call num path ''C3'' (ResNet.C3 self) x) (\<lambda>x.
     bind_e (call num path ''C4'' (ResNet.C4 self) x) (\<lambda>x.
     bind_e (call_opt num path ''C5'' (ResNet.C5 self) x) (\<lambda>x.
       Inr x)))))"

definition stages :: "ResNet \<Rightarrow> module option list" where
  "stages self = [Some (ResNet.C1 self), Some (ResNet.C2 self), Some (ResNet.C3 self),
                  Some (ResNet.C4 self), ResNet.C5 self]"

text \<open>\<^verbatim>\<open>len(m)\<close> of an \<^verbatim>\<open>nn.Sequential\<close>.\<close>

fun len_module :: "module \<Rightarrow> nat" where
  "len_module (Sequential ms) = length ms"
| "len_module _ = 0"

section \<open>RPN\<close>

record RPN =
  anchors_per_location :: nat
  anchor_stride :: nat
  depth :: nat
  padding :: module
  conv_shared :: module
  relu :: module
  conv_class :: module
  softmax :: module
  conv_bbox :: module

definition RPN_init :: "nat \<Rightarrow> nat \<Rightarrow> nat \<Rightarrow> RPN" where
  "RPN_init anchors_per_location_arg anchor_stride_arg depth_arg =
     \<lparr>anchors_per_location = anchors_per_location_arg,
      anchor_stride = anchor_stride_arg,
      depth = depth_arg,
      padding = SamePad2d_init 3 (int anchor_stride_arg),
      conv_shared = Conv2d depth_arg 512 3 anchor_stride_arg 0,
      relu = ReLU,
      conv_class = Conv2d 512 (2 * anchors_per_location_arg) 1 1 0,
      softmax = Softmax 2,
      conv_bbox = Conv2d 512 (4 * anchors_per_location_arg) 1 1 0\<rparr>"

definition RPN_forward :: "numerics \<Rightarrow> key list \<Rightarrow> RPN \<Rightarrow> tensor \<Rightarrow> error + tensor list" where
  "RPN_forward num path self x =
     bind_e (call num path ''padding'' (RPN.padding self) x) (\<lambda>x.
     bind_e (call num path ''conv_shared'' (RPN.conv_shared self) x) (\<lambda>x.
     bind_e (call num path ''relu'' (RPN.relu self) x) (\<lambda>x.
     bind_e (call num path ''conv_class'' (RPN.conv_class self) x) (\<lambda>rpn_class_logits.
     bind_e (permute rpn_class_logits [0, 2, 3, 1]) (\<lambda>rpn_class_logits.
     bind_e (tensor_size x 0) (\<lambda>batch.
     bind_e (view rpn_class_logits [batch, - 1, 2]) (\<lambda>rpn_class_logits.
     bind_e (call num path ''softmax'' (RPN.softmax self) rpn_class_logits) (\<lambda>rpn_probs.
     bind_e (call num path ''conv_bbox'' (RPN.conv_bbox self) x) (\<lambda>rpn_bbox.
     bind_e (permute rpn_bbox [0, 2, 3, 1]) (\<lambda>rpn_bbox.
     bind_e (tensor_size x 0) (\<lambda>batch.
     bind_e (view rpn_bbox [batch, - 1, 4]) (\<lambda>rpn_bbox.
       Inr [rpn_class_logits, rpn_probs, rpn_bbox]))))))))))))"

section \<open>Classifier head\<close>

record Classifier =
  depth :: nat
  pool_size :: nat
  image_shape :: "nat list"
  num_classes :: nat
  conv1 :: module
  bn1 :: module
  conv2 :: module
  bn2 :: module
  relu :: module
  linear_class :: module
  softmax :: module
  linear_bbox :: module

definition Classifier_init :: "nat \<Rightarrow> nat \<Rightarrow> nat list \<Rightarrow> nat \<Rightarrow> Classifier" where
  "Classifier_init depth_arg pool_size_arg image_shape_arg num_classes_arg =
     \<lparr>depth = depth_arg, pool_size = pool_size_arg, image_shape = image_shape_arg,
      num_classes = num_classes_arg,
      conv1 = Conv2d depth_arg 1024 pool_size_arg 1 0,
      bn1 = BatchNorm2d 1024,
      conv2 = Conv2d 1024 1024 1 1 0,
      bn2 = BatchNorm2d 1024,
      relu = ReLU,
      linear_class = Linear 1024 num_classes_arg,
      softmax = Softmax 1,
      linear_bbox = Linear 1024 (num_classes_arg * 4)\<rparr>"

text \<open>
  \<^verbatim>\<open>pyramid_roi_align\<close> is imported from \<^verbatim>\<open>lib.layers\<close>, which is not part of the
  sources at hand: it is a parameter of the model, called with the list
  \<^verbatim>\<open>[rois] + x\<close>, the pool size and the image shape.
\<close>

type_synonym roi_align = "tensor list \<Rightarrow> nat \<Rightarrow> nat list \<Rightarrow> error + tensor"

definition Classifier_forward ::
  "numerics \<Rightarrow> roi_align \<Rightarrow> key list \<Rightarrow> Classifier \<Rightarrow> tensor list \<Rightarrow> tensor \<Rightarrow> error + tensor list" where
  "Classifier_forward num pyramid_roi_align path self x rois =
     bind_e (pyramid_roi_align ([rois] @ x) (Classifier.pool_size self) (Classifier.image_shape self)) (\<lambda>x.
     bind_e (call num path ''conv1'' (Classifier.conv1 self) x) (\<lambda>x.
     bind_e (call num path ''bn1'' (Classifier.bn1 self) x) (\<lambda>x.
     bind_e (call num path ''relu'' (Classifier.relu self) x) (\<lambda>x.
     bind_e (call num path ''conv2'' (Classifier.conv2 self) x) (\<lambda>x.
     bind_e (call num path ''bn2'' (Classifier.bn2 self) x) (\<lambda>x.
     bind_e (call num path ''relu'' (Classifier.relu self) x) (\<lambda>x.
     bind_e (view x [- 1, 1024]) (\<lambda>x.
     bind_e (call num path ''linear_class'' (Classifier.linear_class self) x) (\<lambda>mrcnn_class_logits.
     bind_e (call num path ''softmax'' (Classifier.softmax self) mrcnn_class_logits) (\<lambda>mrcnn_probs.
     bind_e (call num path ''linear_bbox'' (Classifier.linear_bbox self) x) (\<lambda>mrcnn_bbox.
     bind_e (tensor_size mrcnn_bbox 0) (\<lambda>n.
     bind_e (view mrcnn_bbox [n, - 1, 4]) (\<lambda>mrcnn_bbox.
       Inr [mrcnn_class_logits, mrcnn_probs, mrcnn_bbox])))))))))))))"

text \<open>Element \<open>[i, j]\<close> of a 2-D tensor.\<close>

definition get2 :: "tensor \<Rightarrow> nat \<Rightarrow> nat \<Rightarrow> real" where
  "get2 t i j = data t ! (i * (shape t ! 1) + j)"

section \<open>Loss composition\<close>

text \<open>
  \<^verbatim>\<open>compute_loss\<close> calls five loss functions that the sources at hand do not define;
  they are parameters of the model. A loss is a scalar, modelled as a real number.
\<close>

record loss_functions =
  rpn_class_loss_fn :: "tensor \<Rightarrow> tensor \<Rightarrow> error + real"
  rpn_bbox_loss_fn :: "tensor \<Rightarrow> tensor \<Rightarrow> tensor \<Rightarrow> error + real"
  mrcnn_class_loss_fn :: "tensor \<Rightarrow> tensor \<Rightarrow> error + real"
  mrcnn_bbox_loss_fn :: "tensor \<Rightarrow> tensor \<Rightarrow> tensor \<Rightarrow> error + real"
  mrcnn_mask_loss_fn :: "tensor \<Rightarrow> tensor \<Rightarrow> tensor \<Rightarrow> error + real"

text \<open>\<^verbatim>\<open>xs[i]\<close> on a list, and the built-in \<^verbatim>\<open>sum\<close>, which starts from 0 and adds from the left.\<close>

definition py_index :: "'a list \<Rightarrow> nat \<Rightarrow> error + 'a" where
  "py_index xs i = (if i < length xs then Inr (xs ! i) else Inl IndexError)"

definition py_sum :: "real list \<Rightarrow> real" where
  "py_sum xs = foldl (+) 0 xs"

definition compute_loss ::
  "loss_functions \<Rightarrow> tensor \<Rightarrow> tensor \<Rightarrow> tensor list \<Rightarrow> error + (real \<times> real list)" where
  "compute_loss fns target_rpn_match target_rpn_bbox inputs =
     bind_e (py_index inputs 0) (\<lambda>rpn_class_logits.
     bind_e (py_index inputs 1) (\<lambda>rpn_pred_bbox.
     bind_e (py_index inputs 2) (\<lambda>target_class_ids.
     bind_e (py_index inputs 3) (\<lambda>mrcnn_class_logits.
     bind_e (py_index inputs 4) (\<lambda>target_deltas.
     bind_e (py_index inputs 5) (\<lambda>mrcnn_bbox.
     bind_e (py_index inputs 6) (\<lambda>target_mask.
     bind_e (py_index inputs 7) (\<lambda>mrcnn_mask.
     bind_e (rpn_class_loss_fn fns target_rpn_match rpn_class_logits) (\<lambda>rpn_class_loss.
     bind_e (rpn_bbox_loss_fn fns target_rpn_bbox target_rpn_match rpn_pred_bbox) (\<lambda>rpn_bbox_loss.
     bind_e (mrcnn_class_loss_fn fns target_class_ids mrcnn_class_logits) (\<lambda>mrcnn_class_loss.
     bind_e (mrcnn_bbox_loss_fn fns target_deltas target_class_ids mrcnn_bbox) (\<lambda>mrcnn_bbox_loss.
     bind_e (mrcnn_mask_loss_fn fns target_mask target_class_ids mrcnn_mask) (\<lambda>mrcnn_mask_loss.
       let outputs = [rpn_class_loss, rpn_bbox_loss, mrcnn_class_loss, mrcnn_bbox_loss,
                      mrcnn_mask_loss]
       in Inr (py_sum outputs, outputs))))))))))))))"

subsection \<open>The five losses, from the specification\<close>

definition mean :: "real list \<Rightarrow> real" where
  "mean xs = sum_list xs / real (length xs)"

definition smooth_l1 :: "real \<Rightarrow> real" where
  "smooth_l1 d = (if \<bar>d\<bar> < 1 then d * d / 2 else \<bar>d\<bar> - 1 / 2)"

definition cross_entropy :: "real list \<Rightarrow> nat \<Rightarrow> real" where
  "cross_entropy logits c = ln (sum_list (map exp logits)) - logits ! c"

definition binary_cross_entropy :: "real \<Rightarrow> real \<Rightarrow> real" where
  "binary_cross_entropy y p = - (y * ln p + (1 - y) * ln (1 - p))"

text \<open>
  The target sets. An anchor is marked 1 (positive), -1 (negative) or 0 (neutral) in the
  anchor-match target; a region has a class id, 0 being the background.
\<close>

definition non_neutral_anchors :: "tensor \<Rightarrow> nat list" where
  "non_neutral_anchors rpn_match = filter (\<lambda>i. data rpn_match ! i \<noteq> 0) [0..<length (data rpn_match)]"

definition positive_anchors :: "tensor \<Rightarrow> nat list" where
  "positive_anchors rpn_match = filter (\<lambda>i. data rpn_match ! i = 1) [0..<length (data rpn_match)]"

definition all_rois :: "tensor \<Rightarrow> nat list" where
  "all_rois target_class_ids = [0..<length (data target_class_ids)]"

definition positive_rois :: "tensor \<Rightarrow> nat list" where
  "positive_rois target_class_ids =
     filter (\<lambda>i. 0 < data target_class_ids ! i) [0..<length (data target_class_ids)]"

definition class_id :: "tensor \<Rightarrow> nat \<Rightarrow> nat" where
  "class_id target_class_ids i = nat \<lfloor>data target_class_ids ! i\<rfloor>"

text \<open>
  Modelled from the spec: \<^verbatim>\<open>compute_rpn_class_loss\<close> is not in the sources. Section 4.7:
  cross-entropy over foreground/background, ignoring anchors marked neutral; zero when
  the target set is empty.
\<close>

definition compute_rpn_class_loss :: "tensor \<Rightarrow> tensor \<Rightarrow> error + real" where
  "compute_rpn_class_loss rpn_match rpn_class_logits =
     (let anchors = non_neutral_anchors rpn_match
      in if anchors = [] then Inr 0
         else Inr (mean (map (\<lambda>i. cross_entropy
                                     [data rpn_class_logits ! (2 * i), data rpn_class_logits ! (2 * i + 1)]
                                     (if data rpn_match ! i = 1 then 1 else 0)) anchors)))"

text \<open>
  Modelled from the spec: \<^verbatim>\<open>compute_rpn_bbox_loss\<close> is not in the sources. Section 4.7:
  smooth-L1 over positive anchors only, normalized by positive count; zero when the
  target set is empty.
\<close>

definition compute_rpn_bbox_loss :: "tensor \<Rightarrow> tensor \<Rightarrow> tensor \<Rightarrow> error + real" where
  "compute_rpn_bbox_loss target_bbox rpn_match rpn_bbox =
     (let anchors = positive_anchors rpn_match
      in if anchors = [] then Inr 0
         else Inr (sum_list (map (\<lambda>i. sum_list (map (\<lambda>j.
                       smooth_l1 (data target_bbox ! (4 * i + j) - data rpn_bbox ! (4 * i + j)))
                       [0..<4])) anchors) / real (length anchors)))"

text \<open>
  Modelled from the spec: \<^verbatim>\<open>compute_mrcnn_class_loss\<close> is not in the sources.
  Section 4.7: cross-entropy over the regions; zero when the target set is empty.
\<close>

definition compute_mrcnn_class_loss :: "tensor \<Rightarrow> tensor \<Rightarrow> error + real" where
  "compute_mrcnn_class_loss target_class_ids mrcnn_class_logits =
     (let rois = all_rois target_class_ids; nc = shape mrcnn_class_logits ! 1
      in if rois = [] then Inr 0
         else Inr (mean (map (\<lambda>r. cross_entropy
                                     (map (\<lambda>c. get2 mrcnn_class_logits r c) [0..<nc])
                                     (class_id target_class_ids r)) rois)))"

text \<open>
  Modelled from the spec: \<^verbatim>\<open>compute_mrcnn_bbox_loss\<close> is not in the sources.
  Section 4.7: smooth-L1, evaluated only at the ground-truth class's predicted box;
  zero when the target set is empty.
\<close>

definition compute_mrcnn_bbox_loss :: "tensor \<Rightarrow> tensor \<Rightarrow> tensor \<Rightarrow> error + real" where
  "compute_mrcnn_bbox_loss target_deltas target_class_ids mrcnn_bbox =
     (let rois = positive_rois target_class_ids
      in if rois = [] then Inr 0
         else Inr (mean (concat (map (\<lambda>r. map (\<lambda>j.
                       smooth_l1 (get2 target_deltas r j
                                  - get3 mrcnn_bbox r (class_id target_class_ids r) j))
                       [0..<4]) rois))))"

text \<open>
  Modelled from the spec: \<^verbatim>\<open>compute_mrcnn_mask_loss\<close> is not in the sources.
  Section 4.7: per-class binary cross-entropy at the ground-truth class channel only;
  zero when the target set is empty.
\<close>

definition compute_mrcnn_mask_loss :: "tensor \<Rightarrow> tensor \<Rightarrow> tensor \<Rightarrow> error + real" where
  "compute_mrcnn_mask_loss target_mask target_class_ids mrcnn_mask =
     (let rois = positive_rois target_class_ids;
          h = shape target_mask ! 1; w = shape target_mask ! 2
      in if rois = [] then Inr 0
         else Inr (mean (concat (map (\<lambda>r. concat (map (\<lambda>y. map (\<lambda>x.
                       binary_cross_entropy (get3 target_mask r y x)
                         (get4 mrcnn_mask r (class_id target_class_ids r) y x))
                       [0..<w]) [0..<h])) rois))))"

definition spec_losses :: loss_functions where
  "spec_losses =
     \<lparr>rpn_class_loss_fn = compute_rpn_class_loss,
      rpn_bbox_loss_fn = compute_rpn_bbox_loss,
      mrcnn_class_loss_fn = compute_mrcnn_class_loss,
      mrcnn_bbox_loss_fn = compute_mrcnn_bbox_loss,
      mrcnn_mask_loss_fn = compute_mrcnn_mask_loss\<rparr>"

section \<open>Facts about tensors\<close>

lemma length_rows:
  "(\<And>i. i < n \<Longrightarrow> length (g i) = m) \<Longrightarrow> length (rows n g) = n * m"
  unfolding rows_def by (induction n) simp_all

lemma nth_rows:
  assumes "\<And>i. i < n \<Longrightarrow> length (g i) = m" and "i < n" and "j < m"
  shows "rows n g ! (i * m + j) = g i ! j"
  using assms
proof (induction n)
  case 0
  then show ?case by simp
next
  case (Suc n)
  have len: "length (rows n g) = n * m"
    using Suc.prems(1) by (simp add: length_rows)
  show ?case
  proof (cases "i < n")
    case True
    then have "i * m + j < n * m"
    proof -
      have "i * m + j < i * m + m" using Suc.prems(3) by simp
      also have "\<dots> = Suc i * m" by simp
      also have "\<dots> \<le> n * m" using True by (intro mult_le_mono1) simp
      finally show ?thesis .
    qed
    then show ?thesis
      using Suc True len unfolding rows_def by (simp add: nth_append)
  next
    case False
    then have "i = n" using Suc.prems(2) by simp
    then show ?thesis
      using len Suc.prems(3) unfolding rows_def by (simp add: nth_append)
  qed
qed

lemma shape_mk4 [simp]: "shape (mk4 N C H W f) = [N, C, H, W]"
  by (simp add: mk4_def)

lemma length_data_mk4: "length (data (mk4 N C H W f)) = N * (C * (H * W))"
  by (simp add: mk4_def length_rows)

lemma get4_mk4:
  assumes "n < N" and "c < C" and "h < H" and "w < W"
  shows "get4 (mk4 N C H W f) n c h w = f n c h w"
proof -
  let ?r1 = "\<lambda>n c. rows H (\<lambda>h. map (\<lambda>w. f n c h w) [0..<W])"
  let ?r2 = "\<lambda>n. rows C (?r1 n)"
  have l1: "length (?r1 n c) = H * W" for n c
    by (simp add: length_rows)
  have l2: "length (?r2 n) = C * (H * W)" for n
    by (rule length_rows) (simp add: l1)
  have hw: "h * W + w < H * W"
  proof -
    have "h * W + w < Suc h * W" using assms(4) by simp
    also have "\<dots> \<le> H * W" using assms(3) by (intro mult_le_mono1) simp
    finally show ?thesis .
  qed
  have chw: "c * (H * W) + (h * W + w) < C * (H * W)"
  proof -
    have "c * (H * W) + (h * W + w) < Suc c * (H * W)" using hw by simp
    also have "\<dots> \<le> C * (H * W)" using assms(2) by (intro mult_le_mono1) simp
    finally show ?thesis .
  qed
  have idx: "((n * C + c) * H + h) * W + w = n * (C * (H * W)) + (c * (H * W) + (h * W + w))"
    by (simp add: algebra_simps)
  have "rows N ?r2 ! (n * (C * (H * W)) + (c * (H * W) + (h * W + w)))
        = ?r2 n ! (c * (H * W) + (h * W + w))"
    by (rule nth_rows) (simp_all add: l2 assms(1) chw)
  also have "\<dots> = ?r1 n c ! (h * W + w)"
    by (rule nth_rows) (simp_all add: l1 assms(2) hw)
  also have "\<dots> = map (\<lambda>w. f n c h w) [0..<W] ! w"
    by (rule nth_rows) (simp_all add: assms(3) assms(4))
  also have "\<dots> = f n c h w"
    using assms(4) by simp
  finally show ?thesis
    by (simp add: get4_def mk4_def idx)
qed

section \<open>Facts about SamePad2d\<close>

lemma ceil_mul_ge: "0 < (s::int) \<Longrightarrow> a \<le> - ((- a) div s) * s"
proof -
  assume s: "0 < s"
  have "0 \<le> (- a) mod s" using s by simp
  moreover have "- a = (- a) div s * s + (- a) mod s" by simp
  ultimately show ?thesis by linarith
qed

lemma ceil_mul_lt: "0 < (s::int) \<Longrightarrow> - ((- a) div s) * s < a + s"
proof -
  assume s: "0 < s"
  have "(- a) mod s < s" using s by simp
  moreover have "- a = (- a) div s * s + (- a) mod s" by simp
  ultimately show ?thesis by linarith
qed

lemma pad_along_bounds:
  assumes "0 < s"
  shows "k - s \<le> pad_along k s n" and "pad_along k s n < k"
  using ceil_mul_ge[OF assms, of n] ceil_mul_lt[OF assms, of n]
  by (simp_all add: pad_along_def algebra_simps)

lemma SamePad2d_padding_eq:
  assumes "s0 \<noteq> 0" "s1 \<noteq> 0"
  shows "SamePad2d_padding (k0, k1) (s0, s1) a b
           = Inr (pad_along k0 s0 a div 2, pad_along k0 s0 a - pad_along k0 s0 a div 2,
                  pad_along k1 s1 b div 2, pad_along k1 s1 b - pad_along k1 s1 b div 2)"
  using assms
  by (simp add: SamePad2d_padding_def py_ceil_div_def bind_e_def Let_def pad_along_def)

lemma F_pad_ok:
  assumes "shape t = [N, C, H, W]" and "0 \<le> int H + pt + pb" and "0 \<le> int W + pl + pr"
  shows "F_pad t (pl, pr, pt, pb) =
     Inr (mk4 N C (nat (int H + pt + pb)) (nat (int W + pl + pr))
            (\<lambda>n c i j. if 0 \<le> int i - pt \<and> int i - pt < int H \<and> 0 \<le> int j - pl \<and> int j - pl < int W
                       then get4 t n c (nat (int i - pt)) (nat (int j - pl)) else 0))"
  using assms by (simp add: F_pad_def Let_def)

lemma SamePad2d_forward_eq:
  assumes "shape t = [N, C, H, W]" and "s0 \<noteq> 0" and "s1 \<noteq> 0"
  shows "SamePad2d_forward (k0, k1) (s0, s1) t =
     F_pad t (pad_along k0 s0 (int H) div 2, pad_along k0 s0 (int H) - pad_along k0 s0 (int H) div 2,
              pad_along k1 s1 (int W) div 2, pad_along k1 s1 (int W) - pad_along k1 s1 (int W) div 2)"
  using assms
  by (simp add: SamePad2d_forward_def tensor_size_def bind_e_def SamePad2d_padding_eq)

lemma pad_along_mod: "s \<noteq> 0 \<Longrightarrow> pad_along k s n = (- n) mod s + k - s"
proof -
  have "- n = (- n) div s * s + (- n) mod s" by simp
  then have "- ((- n) div s) * s = n + (- n) mod s" by linarith
  then show ?thesis by (simp add: pad_along_def algebra_simps)
qed

lemma conv_out_same:
  assumes "0 < s" and "0 < k" and "0 < n"
  shows "int n + pad_along (int k) (int s) (int n) \<ge> int k"
    and "conv_out (nat (int n + pad_along (int k) (int s) (int n))) k s 0
           = Inr (nat (- ((- int n) div int s)))"
proof -
  define c where "c = - ((- int n) div int s)"
  have c1: "1 \<le> c"
  proof -
    have "int n \<le> c * int s" using ceil_mul_ge[of "int s" "int n"] assms(1) by (simp add: c_def)
    then have "0 < c * int s" using assms(3) by linarith
    then have "0 < c" using assms(1) by (simp add: zero_less_mult_iff)
    then show ?thesis by simp
  qed
  have tot: "int n + pad_along (int k) (int s) (int n) = (c - 1) * int s + int k"
    by (simp add: pad_along_def c_def)
  show ge: "int n + pad_along (int k) (int s) (int n) \<ge> int k"
    using c1 assms(1) by (simp add: tot)
  have "nat ((c - 1) * int s + int k) = nat (c - 1) * s + k"
    using c1 by (simp add: nat_add_distrib nat_mult_distrib)
  then have "conv_out (nat (int n + pad_along (int k) (int s) (int n))) k s 0
      = Inr (nat (c - 1) + 1)"
    using assms by (simp add: conv_out_def tot)
  also have "nat (c - 1) + 1 = nat c" using c1 by simp
  finally show "conv_out (nat (int n + pad_along (int k) (int s) (int n))) k s 0
           = Inr (nat (- ((- int n) div int s)))"
    by (simp add: c_def)
qed

lemma SamePad2d_Conv2d_aligned:
  assumes "shape x = [N, C, H, W]" and "0 < H" and "0 < W" and "0 < k" and "0 < s"
    and "H mod s = W mod s" and "0 < Co"
  shows "\<exists>out. forward num path (Sequential [SamePad2d_init (int k) (int s), Conv2d C Co k s 0]) x = Inr out
      \<and> shape out = [N, Co, nat (- ((- int H) div int s)), nat (- ((- int W) div int s))]"
proof -
  define P where "P = pad_along (int k) (int s) (int H)"
  have "int H mod int s = int W mod int s"
    using assms(6) by (metis zmod_int)
  then have "(- int H) mod int s = (- int W) mod int s"
    by (rule mod_minus_cong)
  then have PW: "pad_along (int k) (int s) (int W) = P"
    using assms(5) by (simp add: pad_along_mod P_def)
  have geH: "int k \<le> int H + P" and geW: "int k \<le> int W + P"
    using conv_out_same(1)[OF assms(5,4,2)] conv_out_same(1)[OF assms(5,4,3)] PW
    by (simp_all add: P_def)
  have coH: "conv_out (nat (int H + P)) k s 0 = Inr (nat (- ((- int H) div int s)))"
    using conv_out_same(2)[OF assms(5,4,2)] by (simp add: P_def)
  have coW: "conv_out (nat (int W + P)) k s 0 = Inr (nat (- ((- int W) div int s)))"
    using conv_out_same(2)[OF assms(5,4,3)] PW by simp
  have sum: "P div 2 + (P - P div 2) = P" by simp
  obtain f where pad: "SamePad2d_forward (int k, int k) (int s, int s) x
      = Inr (mk4 N C (nat (int H + P)) (nat (int W + P)) f)"
    using F_pad_ok[OF assms(1), of "P div 2" "P - P div 2" "P div 2" "P - P div 2"]
      assms(5) geH geW PW
    by (simp add: SamePad2d_forward_eq[OF assms(1)] P_def[symmetric] add.assoc)
  show ?thesis
    using pad coH coW assms(7)
    by (simp add: SamePad2d_init_def pair_of_def bind_e_def lib_layer_def)
qed

section \<open>Facts about modules, the ResNet and the FPN\<close>

lemma bind_e_Inr_iff: "bind_e m f = Inr y \<longleftrightarrow> (\<exists>x. m = Inr x \<and> f x = Inr y)"
  by (cases m) (simp_all add: bind_e_def)

lemma bind_e_simps [simp]: "bind_e (Inl e) f = Inl e" "bind_e (Inr x) f = f x"
  by (simp_all add: bind_e_def)

lemma len_make_layer: "0 < blocks \<Longrightarrow> len_module (fst (make_layer i planes blocks stride)) = blocks"
  by (simp add: make_layer_def Let_def)

lemma max_pool2d_1_2:
  assumes "shape x = [N, C, H, W]" and "0 < H" and "0 < W"
  shows "max_pool2d 1 2 x = Inr (downsample2 x)"
proof -
  have "(H - 1) div 2 + 1 = (H + 1) div 2" "(W - 1) div 2 + 1 = (W + 1) div 2"
    using assms(2,3) by presburger+
  then show ?thesis
    using assms by (simp add: max_pool2d_def conv_out_def downsample2_def mult.commute)
qed

lemma conv_out_pos: "conv_out n k s p = Inr m \<Longrightarrow> 0 < m"
  by (auto simp: conv_out_def split: if_splits)

lemma Conv2d_result_shape:
  assumes "forward num path (Conv2d cin cout k s p) x = Inr y"
  shows "\<exists>N H W. shape y = [N, cout, H, W] \<and> 0 < H \<and> 0 < W"
proof -
  obtain sh where sh: "out_shape (Conv2d cin cout k s p) (shape x) = Inr sh" and y: "shape y = sh"
    using assms by (auto simp: lib_layer_def bind_e_Inr_iff)
  show ?thesis
    using sh y
    by (cases "(Conv2d cin cout k s p, shape x)" rule: out_shape.cases)
       (auto simp: bind_e_Inr_iff split: if_splits dest!: conv_out_pos dest: sym)
qed

lemma smooth_result_shape:
  assumes "call num path name (Sequential [SamePad2d_init 3 1, Conv2d oc oc 3 1 0]) m = Inr p"
  shows "\<exists>N H W. shape p = [N, oc, H, W] \<and> 0 < H \<and> 0 < W"
  using assms Conv2d_result_shape
  by (fastforce simp: call_def bind_e_Inr_iff)

section \<open>Facts about the RPN\<close>

lemma permute_0231:
  assumes "shape t = [B, C, H, W]"
  shows "permute t [0, 2, 3, 1] = Inr (mk4 B H W C (\<lambda>b h w c. get4 t b c h w))"
proof -
  have "set [0, 2, 3, 1] = {0, 1, 2, 3::nat}" by auto
  then show ?thesis
    using assms by (simp add: permute_def index_of_def)
qed

lemma view_infer:
  assumes "numel (shape t) = B * M * k" and "0 < B" and "0 < k"
  shows "view t [int B, - 1, int k] = Inr (t\<lparr>shape := [B, M, k]\<rparr>)"
proof -
  have "int (B * M * k) = int M * (int B * int k)" by simp
  then have "int (B * M * k) mod (int B * int k) = 0"
    and "int (B * M * k) div (int B * int k) = int M"
    using assms(2,3) by simp_all
  then show ?thesis
    using assms by (simp add: view_def Let_def)
qed

lemma view_batch_pos:
  assumes "view t [int B, - 1, k] = Inr t'"
  shows "0 < B"
  using assms by (cases "B = 0") (auto simp: view_def Let_def split: if_splits)

lemma conv1x1_shape:
  assumes "forward num path (Conv2d cin cout 1 1 0) y = Inr z"
  shows "\<exists>B H W. shape y = [B, cin, H, W] \<and> shape z = [B, cout, H, W]"
proof -
  obtain sh where sh: "out_shape (Conv2d cin cout 1 1 0) (shape y) = Inr sh" and z: "shape z = sh"
    using assms by (auto simp: lib_layer_def bind_e_Inr_iff)
  show ?thesis
    using sh z
    by (cases "(Conv2d cin cout 1 1 0, shape y)" rule: out_shape.cases)
       (auto simp: bind_e_Inr_iff conv_out_def split: if_splits)
qed

lemma flat_index_split:
  assumes "(i::nat) < H * W * A"
  shows "i mod A < A" and "i div A mod W < W" and "i div (A * W) < H"
    and "i = ((i div (A * W)) * W + i div A mod W) * A + i mod A"
proof -
  have A: "0 < A" and W: "0 < W" using assms by (cases A; cases W; simp)+
  show "i mod A < A" using A by simp
  show "i div A mod W < W" using W by simp
  have "i < H * (A * W)" using assms by (simp add: mult.commute mult.left_commute)
  then show "i div (A * W) < H"
    using A W by (simp add: less_mult_imp_div_less)
  have "i div (A * W) = i div A div W" by (simp add: div_mult2_eq)
  then have "(i div (A * W)) * W + i div A mod W = i div A" by simp
  then show "i = ((i div (A * W)) * W + i div A mod W) * A + i mod A" by simp
qed

lemma flatten_align:
  assumes "b < B" and "i < H * W * A" and "j < k"
  shows "data (mk4 B H W (k * A) f) ! ((b * (H * W * A) + i) * k + j)
       = f b (i div (A * W)) (i div A mod W) (k * (i mod A) + j)"
proof -
  define a where "a = i mod A"
  define w where "w = i div A mod W"
  define h where "h = i div (A * W)"
  have bounds: "a < A" "w < W" "h < H" and i: "i = (h * W + w) * A + a"
    using flat_index_split[OF assms(2)] by (simp_all add: a_def w_def h_def)
  have c: "k * a + j < k * A"
  proof -
    have "k * a + j < k * a + k" using assms(3) by simp
    also have "\<dots> = k * Suc a" by simp
    also have "\<dots> \<le> k * A" using bounds(1) by (intro mult_le_mono2) simp
    finally show ?thesis .
  qed
  have "get4 (mk4 B H W (k * A) f) b h w (k * a + j) = f b h w (k * a + j)"
    using assms(1) bounds c by (intro get4_mk4)
  moreover have "((b * H + h) * W + w) * (k * A) + (k * a + j) = (b * (H * W * A) + i) * k + j"
    by (subst i) (simp add: algebra_simps)
  ultimately show ?thesis
    by (simp add: get4_def a_def[symmetric] w_def[symmetric] h_def[symmetric])
qed

lemma softmax_last_dim:
  assumes "shape t = [B, M, n]" and "length (data t) = B * M * n" and "r < B * M" and "j < n"
  shows "\<exists>t'. F_softmax 2 t = Inr t' \<and> shape t' = shape t
     \<and> data t' ! (r * n + j)
         = exp (data t ! (r * n + j)) / sum_list (map (\<lambda>i. exp (data t ! (r * n + i))) [0..<n])"
proof -
  have lt: "r * n + j < B * M * n"
  proof -
    have "r * n + j < Suc r * n" using assms(4) by simp
    also have "\<dots> \<le> (B * M) * n" using assms(3) by (intro mult_le_mono1) simp
    finally show ?thesis .
  qed
  have d: "(r * n + j) div n = r" using assms(4) by simp
  show ?thesis
    using assms(1,2) lt d by (simp add: F_softmax_def numel_def Let_def)
qed

lemma RPN_forward_parts:
  assumes "RPN_forward num path (RPN_init A s d) x = Inr outs"
  shows "\<exists>x0 x1 cls box B H W probs.
      call num path ''padding'' (SamePad2d_init 3 (int s)) x = Inr x0
    \<and> call num path ''conv_shared'' (Conv2d d 512 3 s 0) x0 = Inr x1
    \<and> call num path ''conv_class'' (Conv2d 512 (2 * A) 1 1 0) (F_relu x1) = Inr cls
    \<and> call num path ''conv_bbox'' (Conv2d 512 (4 * A) 1 1 0) (F_relu x1) = Inr box
    \<and> shape cls = [B, 2 * A, H, W] \<and> shape box = [B, 4 * A, H, W] \<and> 0 < B
    \<and> F_softmax 2 ((mk4 B H W (2 * A) (\<lambda>b h w c. get4 cls b c h w))\<lparr>shape := [B, H * W * A, 2]\<rparr>)
         = Inr probs
    \<and> outs = [(mk4 B H W (2 * A) (\<lambda>b h w c. get4 cls b c h w))\<lparr>shape := [B, H * W * A, 2]\<rparr>,
               probs,
               (mk4 B H W (4 * A) (\<lambda>b h w c. get4 box b c h w))\<lparr>shape := [B, H * W * A, 4]\<rparr>]"
proof -
  from assms obtain x0 x1 cls pc batch lg probs box pb batch' bb where
    h: "call num path ''padding'' (SamePad2d_init 3 (int s)) x = Inr x0"
       "call num path ''conv_shared'' (Conv2d d 512 3 s 0) x0 = Inr x1"
       "call num path ''conv_class'' (Conv2d 512 (2 * A) 1 1 0) (F_relu x1) = Inr cls"
       "permute cls [0, 2, 3, 1] = Inr pc"
       "tensor_size (F_relu x1) 0 = Inr batch"
       "view pc [batch, - 1, 2] = Inr lg"
       "F_softmax 2 lg = Inr probs"
       "call num path ''conv_bbox'' (Conv2d 512 (4 * A) 1 1 0) (F_relu x1) = Inr box"
       "permute box [0, 2, 3, 1] = Inr pb"
       "tensor_size (F_relu x1) 0 = Inr batch'"
       "view pb [batch', - 1, 4] = Inr bb"
       "outs = [lg, probs, bb]"
    unfolding RPN_forward_def RPN_init_def bind_e_Inr_iff
    by (auto simp: call_def)
  obtain B H W where y: "shape (F_relu x1) = [B, 512, H, W]" and cls: "shape cls = [B, 2 * A, H, W]"
    using conv1x1_shape[OF h(3)[unfolded call_def]] by blast
  obtain B' H' W' where "shape (F_relu x1) = [B', 512, H', W']" and "shape box = [B', 4 * A, H', W']"
    using conv1x1_shape[OF h(8)[unfolded call_def]] by blast
  with y have box: "shape box = [B, 4 * A, H, W]" by simp
  have batch: "batch = int B" "batch' = int B"
    using h(5,10) y by (simp_all add: tensor_size_def)
  have pc: "pc = mk4 B H W (2 * A) (\<lambda>b h w c. get4 cls b c h w)"
    using h(4) permute_0231[OF cls] by simp
  have pb: "pb = mk4 B H W (4 * A) (\<lambda>b h w c. get4 box b c h w)"
    using h(9) permute_0231[OF box] by simp
  have B: "0 < B"
    using h(6) batch view_batch_pos by blast
  have "numel (shape pc) = B * (H * W * A) * 2"
    by (simp add: pc numel_def)
  from view_infer[OF this B] h(6) batch
  have lg: "lg = pc\<lparr>shape := [B, H * W * A, 2]\<rparr>" by simp
  have "numel (shape pb) = B * (H * W * A) * 4"
    by (simp add: pb numel_def)
  from view_infer[OF this B] h(11) batch
  have bb: "bb = pb\<lparr>shape := [B, H * W * A, 4]\<rparr>" by simp
  show ?thesis
    using h(1,2,3,8) cls box B h(7) h(12) unfolding lg bb pc pb by blast
qed

lemma softmax_pair:
  assumes "shape t = [B, M, 2]" and "length (data t) = B * M * 2" and "b < B" and "i < M"
  shows "\<exists>t'. F_softmax 2 t = Inr t' \<and> shape t' = [B, M, 2]
     \<and> get3 t' b i 0 = exp (get3 t b i 0) / (exp (get3 t b i 0) + exp (get3 t b i 1))
     \<and> get3 t' b i 1 = exp (get3 t b i 1) / (exp (get3 t b i 0) + exp (get3 t b i 1))"
proof -
  have r: "b * M + i < B * M"
  proof -
    have "b * M + i < Suc b * M" using assms(4) by simp
    also have "\<dots> \<le> B * M" using assms(3) by (intro mult_le_mono1) simp
    finally show ?thesis .
  qed
  have two: "[0..<2] = [0, Suc 0]" by (simp add: numeral_2_eq_2)
  from softmax_last_dim[OF assms(1,2) r, of 0] softmax_last_dim[OF assms(1,2) r, of 1]
  show ?thesis
    using assms(1) by (auto simp: get3_def two)
qed

lemma softmax_pair_bounds:
  fixes u v :: real
  shows "0 \<le> exp u / (exp u + exp v)" and "exp u / (exp u + exp v) \<le> 1"
    and "exp u / (exp u + exp v) + exp v / (exp u + exp v) = 1"
proof -
  have pos: "0 < exp u + exp v" by (simp add: add_pos_pos)
  show "0 \<le> exp u / (exp u + exp v)" using pos by simp
  show "exp u / (exp u + exp v) \<le> 1" using pos by (simp add: divide_le_eq)
  show "exp u / (exp u + exp v) + exp v / (exp u + exp v) = 1"
    using pos by (simp add: add_divide_distrib[symmetric])
qed


lemma SamePad2d_3_1:
  assumes "shape x = [B, C, H, W]"
  shows "\<exists>x0. call num path name (SamePad2d_init 3 1) x = Inr x0 \<and> shape x0 = [B, C, H + 2, W + 2]"
proof -
  have p: "pad_along 3 1 n = 2" for n by (simp add: pad_along_def)
  have "nat (int H + 1 + 1) = H + 2" "nat (int W + 1 + 1) = W + 2" by simp_all
  then show ?thesis
    using F_pad_ok[OF assms, of 1 1 1 1]
    by (auto simp: call_def SamePad2d_init_def pair_of_def SamePad2d_forward_eq[OF assms] p)
qed

lemma Conv2d_returns:
  assumes "shape y = [B, cin, H, W]" and "conv_out H k s p = Inr H'" and "conv_out W k s p = Inr W'"
    and "0 < cout"
  shows "\<exists>z. call num path name (Conv2d cin cout k s p) y = Inr z \<and> shape z = [B, cout, H', W']"
  using assms by (simp add: call_def lib_layer_def)

lemma RPN_forward_returns:
  assumes "shape x = [B, d, H, W]" and "0 < B" and "0 < H" and "0 < W" and "0 < A"
  shows "\<exists>outs. RPN_forward num path (RPN_init A 1 d) x = Inr outs"
proof -
  obtain x0 where x0: "call num path ''padding'' (SamePad2d_init 3 (int 1)) x = Inr x0"
    and sx0: "shape x0 = [B, d, H + 2, W + 2]"
    using SamePad2d_3_1[OF assms(1)] by fastforce
  have co3: "conv_out (H + 2) 3 1 0 = Inr H" "conv_out (W + 2) 3 1 0 = Inr W"
    using assms(3,4) by (simp_all add: conv_out_def)
  have pos: "(0::nat) < 512" "0 < 2 * A" "0 < 4 * A"
    using assms(5) by simp_all
  from Conv2d_returns[OF sx0 co3 pos(1)]
  obtain x1 where x1: "call num path ''conv_shared'' (Conv2d d 512 3 1 0) x0 = Inr x1"
    and sx1: "shape x1 = [B, 512, H, W]"
    by blast
  define y where "y = F_relu x1"
  have y: "call num path ''relu'' ReLU x1 = Inr y" and sy: "shape y = [B, 512, H, W]"
    using sx1 by (simp_all add: call_def y_def F_relu_def)
  have co: "conv_out H 1 1 0 = Inr H" "conv_out W 1 1 0 = Inr W"
    using assms(3,4) by (simp_all add: conv_out_def)
  from Conv2d_returns[OF sy co pos(2)]
  obtain cls where cls: "call num path ''conv_class'' (Conv2d 512 (2 * A) 1 1 0) y = Inr cls"
    and scls: "shape cls = [B, 2 * A, H, W]"
    by blast
  from Conv2d_returns[OF sy co pos(3)]
  obtain box where box: "call num path ''conv_bbox'' (Conv2d 512 (4 * A) 1 1 0) y = Inr box"
    and sbox: "shape box = [B, 4 * A, H, W]"
    by blast
  define pc where "pc = mk4 B H W (2 * A) (\<lambda>b h w c. get4 cls b c h w)"
  define pb where "pb = mk4 B H W (4 * A) (\<lambda>b h w c. get4 box b c h w)"
  have pc: "permute cls [0, 2, 3, 1] = Inr pc" and pb: "permute box [0, 2, 3, 1] = Inr pb"
    using permute_0231[OF scls] permute_0231[OF sbox] by (simp_all add: pc_def pb_def)
  have ts: "tensor_size y 0 = Inr (int B)"
    using sy by (simp add: tensor_size_def)
  have "numel (shape pc) = B * (H * W * A) * 2" by (simp add: pc_def numel_def)
  from view_infer[OF this assms(2)]
  have vc: "view pc [int B, - 1, 2] = Inr (pc\<lparr>shape := [B, H * W * A, 2]\<rparr>)" by simp
  have "numel (shape pb) = B * (H * W * A) * 4" by (simp add: pb_def numel_def)
  from view_infer[OF this assms(2)]
  have vb: "view pb [int B, - 1, 4] = Inr (pb\<lparr>shape := [B, H * W * A, 4]\<rparr>)" by simp
  obtain probs where sm: "call num path ''softmax'' (Softmax 2) (pc\<lparr>shape := [B, H * W * A, 2]\<rparr>) = Inr probs"
    by (simp add: call_def F_softmax_def Let_def)
  show ?thesis
    unfolding RPN_forward_def RPN_init_def RPN.select_convs x0 bind_e_simps x1 y cls pc ts vc sm box pb vb
    by blast
qed

text \<open>
  With anchor stride 2 the forward pass can raise: on a \<open>1 \<times> 2\<close> map the height receives
  the padding computed for the width, and the padded map is lower than the kernel.
\<close>

lemma RPN_forward_raises_stride_2:
  "RPN_forward num path (RPN_init A 2 1) (mk4 1 1 1 2 (\<lambda>n c h w. 0)) = Inl RuntimeError"
  by (simp add: RPN_forward_def RPN_init_def call_def SamePad2d_init_def pair_of_def
      SamePad2d_forward_def tensor_size_def SamePad2d_padding_def py_ceil_div_def F_pad_def
      Let_def lib_layer_def conv_out_def)

section \<open>Facts about the classifier head\<close>

lemma view_rows:
  assumes "numel (shape t) = M * k" and "0 < k"
  shows "view t [- 1, int k] = Inr (t\<lparr>shape := [M, k]\<rparr>)"
proof -
  have "int (M * k) mod int k = 0" "int (M * k) div int k = int M"
    using assms(2) by simp_all
  then show ?thesis
    using assms by (simp add: view_def Let_def)
qed

lemma sum_list_exp_pos: "0 < n \<Longrightarrow> 0 < sum_list (map (\<lambda>i. exp (g i :: real)) [0..<n])"
proof (induction n)
  case 0
  then show ?case by simp
next
  case (Suc n)
  have "0 \<le> sum_list (map (\<lambda>i. exp (g i)) [0..<n])"
    by (rule sum_list_nonneg) auto
  then show ?case
    by (simp add: add_nonneg_pos)
qed

lemma softmax_rows:
  assumes "shape t = [M, n]" and "length (data t) = M * n"
  shows "\<exists>t'. F_softmax 1 t = Inr t' \<and> shape t' = [M, n]
     \<and> (\<forall>r<M. \<forall>j<n. get2 t' r j
           = exp (get2 t r j) / sum_list (map (\<lambda>i. exp (get2 t r i)) [0..<n]))"
proof -
  have "r * n + j < M * n \<and> (r * n + j) div n = r" if "r < M" "j < n" for r j
  proof -
    have "r * n + j < Suc r * n" using that(2) by simp
    also have "\<dots> \<le> M * n" using that(1) by (intro mult_le_mono1) simp
    finally show ?thesis using that(2) by simp
  qed
  then show ?thesis
    using assms by (simp add: F_softmax_def numel_def Let_def get2_def)
qed

lemma softmax_row_sum:
  fixes g :: "nat \<Rightarrow> real"
  assumes "0 < n"
  shows "sum_list (map (\<lambda>j. exp (g j) / sum_list (map (\<lambda>i. exp (g i)) [0..<n])) [0..<n]) = 1"
proof -
  define S where "S = sum_list (map (\<lambda>i. exp (g i)) [0..<n])"
  have S: "0 < S" using sum_list_exp_pos[OF assms] by (simp add: S_def)
  have "sum_list (map (\<lambda>j. exp (g j) / S) [0..<n]) = sum_list (map (\<lambda>j. exp (g j) * inverse S) [0..<n])"
    by (simp add: divide_inverse)
  also have "\<dots> = S * inverse S"
    by (simp add: sum_list_mult_const S_def)
  also have "\<dots> = 1" using S by simp
  finally show ?thesis by (simp add: S_def)
qed

lemma BatchNorm2d_returns:
  assumes "shape y = [B, c, H, W]" and "B * H * W \<noteq> 1"
  shows "\<exists>z. call num path name (BatchNorm2d c) y = Inr z \<and> shape z = [B, c, H, W]"
  using assms by (simp add: call_def lib_layer_def)

lemma ReLU_returns: "call num path name ReLU y = Inr (F_relu y)" "shape (F_relu y) = shape y"
  by (simp_all add: call_def F_relu_def)

lemma Linear_returns:
  assumes "shape y = [M, fin]"
  shows "\<exists>z. call num path name (Linear fin fout) y = Inr z \<and> shape z = [M, fout]
           \<and> length (data z) = M * fout"
  using assms by (simp add: call_def lib_layer_def numel_def)

text \<open>
  The head up to the last \<^verbatim>\<open>view\<close>, on a batch that is not a single region; where it
  raises; and that it returns on every batch of at least two regions.
\<close>

lemma Classifier_forward_chain:
  assumes "pyramid_roi_align ([rois] @ x) pool img = Inr r"
    and "shape r = [N, d, pool, pool]" and "0 < pool" and "N \<noteq> 1"
  shows "\<exists>a1 b1 a2 b2 feat lg pr bb0.
      call num path ''conv1'' (Conv2d d 1024 pool 1 0) r = Inr a1
    \<and> call num path ''bn1'' (BatchNorm2d 1024) a1 = Inr b1
    \<and> call num path ''conv2'' (Conv2d 1024 1024 1 1 0) (F_relu b1) = Inr a2
    \<and> call num path ''bn2'' (BatchNorm2d 1024) a2 = Inr b2
    \<and> view (F_relu b2) [- 1, 1024] = Inr feat
    \<and> shape feat = [N, 1024]
    \<and> call num path ''linear_class'' (Linear 1024 nc) feat = Inr lg
    \<and> shape lg = [N, nc]
    \<and> F_softmax 1 lg = Inr pr
    \<and> shape pr = [N, nc]
    \<and> (\<forall>n<N. \<forall>c<nc. get2 pr n c
           = exp (get2 lg n c) / sum_list (map (\<lambda>i. exp (get2 lg n i)) [0..<nc]))
    \<and> call num path ''linear_bbox'' (Linear 1024 (nc * 4)) feat = Inr bb0
    \<and> shape bb0 = [N, nc * 4]
    \<and> Classifier_forward num pyramid_roi_align path (Classifier_init d pool img nc) x rois
         = bind_e (view bb0 [int N, - 1, 4]) (\<lambda>b. Inr [lg, pr, b])"
proof -
  have bn: "N * 1 * 1 \<noteq> 1" using assms(4) by simp
  have p1024: "(0::nat) < 1024" by simp
  have co1: "conv_out pool pool 1 0 = Inr 1"
    using assms(3) by (simp add: conv_out_def)
  from Conv2d_returns[OF assms(2) co1 co1 p1024]
  obtain a1 where a1: "call num path ''conv1'' (Conv2d d 1024 pool 1 0) r = Inr a1"
    and sa1: "shape a1 = [N, 1024, 1, 1]" by blast
  from BatchNorm2d_returns[OF sa1 bn]
  obtain b1 where b1: "call num path ''bn1'' (BatchNorm2d 1024) a1 = Inr b1"
    and sb1: "shape b1 = [N, 1024, 1, 1]" by blast
  have r1: "call num path ''relu'' ReLU b1 = Inr (F_relu b1)"
    and sf1: "shape (F_relu b1) = [N, 1024, 1, 1]"
    using sb1 by (simp_all add: ReLU_returns)
  have co2: "conv_out 1 1 1 0 = Inr 1" by (simp add: conv_out_def)
  from Conv2d_returns[OF sf1 co2 co2 p1024]
  obtain a2 where a2: "call num path ''conv2'' (Conv2d 1024 1024 1 1 0) (F_relu b1) = Inr a2"
    and sa2: "shape a2 = [N, 1024, 1, 1]" by blast
  from BatchNorm2d_returns[OF sa2 bn]
  obtain b2 where b2: "call num path ''bn2'' (BatchNorm2d 1024) a2 = Inr b2"
    and sb2: "shape b2 = [N, 1024, 1, 1]" by blast
  have r2: "call num path ''relu'' ReLU b2 = Inr (F_relu b2)"
    and sf2: "shape (F_relu b2) = [N, 1024, 1, 1]"
    using sb2 by (simp_all add: ReLU_returns)
  define feat where "feat = (F_relu b2)\<lparr>shape := [N, 1024]\<rparr>"
  have "numel (shape (F_relu b2)) = N * 1024" by (simp add: sf2 numel_def)
  from view_rows[OF this]
  have v1: "view (F_relu b2) [- 1, 1024] = Inr feat" by (simp add: feat_def)
  have sfeat: "shape feat = [N, 1024]" by (simp add: feat_def)
  from Linear_returns[OF sfeat]
  obtain lg where lg: "call num path ''linear_class'' (Linear 1024 nc) feat = Inr lg"
    and slg: "shape lg = [N, nc]" and llg: "length (data lg) = N * nc" by blast
  from softmax_rows[OF slg llg]
  obtain pr where pr: "F_softmax 1 lg = Inr pr" and spr: "shape pr = [N, nc]"
    and vpr: "\<forall>n<N. \<forall>c<nc. get2 pr n c
           = exp (get2 lg n c) / sum_list (map (\<lambda>i. exp (get2 lg n i)) [0..<nc])"
    by blast
  have cpr: "call num path ''softmax'' (Softmax 1) lg = Inr pr"
    using pr by (simp add: call_def)
  from Linear_returns[OF sfeat]
  obtain bb0 where bb0: "call num path ''linear_bbox'' (Linear 1024 (nc * 4)) feat = Inr bb0"
    and sbb0: "shape bb0 = [N, nc * 4]" by blast
  have ts: "tensor_size bb0 0 = Inr (int N)"
    using sbb0 by (simp add: tensor_size_def)
  have fwd: "Classifier_forward num pyramid_roi_align path (Classifier_init d pool img nc) x rois
         = bind_e (view bb0 [int N, - 1, 4]) (\<lambda>b. Inr [lg, pr, b])"
    unfolding Classifier_forward_def Classifier_init_def Classifier.select_convs
      assms(1) bind_e_simps a1 b1 r1 a2 b2 r2 v1 lg cpr bb0 ts
    by (rule refl)
  show ?thesis
    using a1 b1 a2 b2 v1 sfeat lg slg pr spr vpr bb0 sbb0 fwd by blast
qed

lemma Classifier_forward_raises:
  assumes "pyramid_roi_align ([rois] @ x) pool img = Inr r"
    and "shape r = [N, d, pool, pool]"
  shows "pool = 0 \<Longrightarrow>
           Classifier_forward num pyramid_roi_align path (Classifier_init d pool img nc) x rois
             = Inl RuntimeError"
    and "0 < pool \<Longrightarrow> N = 1 \<Longrightarrow>
           Classifier_forward num pyramid_roi_align path (Classifier_init d pool img nc) x rois
             = Inl ValueError"
    and "N = 0 \<Longrightarrow>
           isl (Classifier_forward num pyramid_roi_align path (Classifier_init d pool img nc) x rois)"
proof -
  show "Classifier_forward num pyramid_roi_align path (Classifier_init d pool img nc) x rois
             = Inl RuntimeError" if "pool = 0"
    using assms that
    by (simp add: Classifier_forward_def Classifier_init_def call_def lib_layer_def conv_out_def)
  show "Classifier_forward num pyramid_roi_align path (Classifier_init d pool img nc) x rois
             = Inl ValueError" if "0 < pool" "N = 1"
    using assms that
    by (simp add: Classifier_forward_def Classifier_init_def call_def lib_layer_def conv_out_def)
  show "isl (Classifier_forward num pyramid_roi_align path (Classifier_init d pool img nc) x rois)"
    if "N = 0"
  proof (cases "pool = 0")
    case True
    then show ?thesis
      using assms
      by (simp add: Classifier_forward_def Classifier_init_def call_def lib_layer_def conv_out_def)
  next
    case False
    then have "0 < pool" "N \<noteq> 1" using that by simp_all
    from Classifier_forward_chain[where pyramid_roi_align = pyramid_roi_align and rois = rois and x = x and num = num and path = path and nc = nc, OF assms this]
    obtain lg pr bb0 where
      "Classifier_forward num pyramid_roi_align path (Classifier_init d pool img nc) x rois
         = bind_e (view bb0 [int N, - 1, 4]) (\<lambda>b. Inr [lg, pr, b])"
      by blast
    moreover have "view bb0 [int N, - 1, 4] = Inl RuntimeError"
      using that by (simp add: view_def Let_def)
    ultimately show ?thesis by simp
  qed
qed

lemma Classifier_forward_returns:
  assumes "pyramid_roi_align ([rois] @ x) pool img = Inr r"
    and "shape r = [N, d, pool, pool]" and "0 < pool" and "2 \<le> N"
  shows "\<exists>outs. Classifier_forward num pyramid_roi_align path (Classifier_init d pool img nc) x rois
           = Inr outs"
proof -
  have N: "N \<noteq> 1" "0 < N" using assms(4) by simp_all
  from Classifier_forward_chain[where pyramid_roi_align = pyramid_roi_align and rois = rois and x = x and num = num and path = path and nc = nc, OF assms(1,2,3) N(1)]
  obtain lg pr bb0 where s: "shape bb0 = [N, nc * 4]" and
    f: "Classifier_forward num pyramid_roi_align path (Classifier_init d pool img nc) x rois
         = bind_e (view bb0 [int N, - 1, 4]) (\<lambda>b. Inr [lg, pr, b])"
    by blast
  have "numel (shape bb0) = N * nc * 4" by (simp add: s numel_def)
  from view_infer[OF this N(2)]
  have "view bb0 [int N, - 1, 4] = Inr (bb0\<lparr>shape := [N, nc, 4]\<rparr>)" by simp
  then show ?thesis using f by simp
qed

section \<open>Facts about the loss composition\<close>

lemma py_index_Inr_iff: "py_index xs i = Inr x \<longleftrightarrow> i < length xs \<and> x = xs ! i"
  by (auto simp: py_index_def)

section \<open>SamePad2d followed by a convolution\<close>

text \<open>
  Claim C1: for every input of spatial size \<open>(H, W)\<close>, kernel size \<open>k\<close> and stride \<open>s\<close>,
  \<^verbatim>\<open>SamePad2d(k, s)\<close> followed by a convolution with kernel \<open>k\<close>, stride \<open>s\<close> and no padding
  gives spatial size \<open>(ceil(H/s), ceil(W/s))\<close>, also when \<open>H\<close> and \<open>W\<close> differ.

  The code reads \<^verbatim>\<open>in_width\<close> from dimension 2 (the height of an NCHW tensor) and
  \<^verbatim>\<open>in_height\<close> from dimension 3, and \<^verbatim>\<open>F.pad\<close> applies the left/right pad to
  dimension 3: each dimension receives the padding computed for the other one. On a
  \<open>4 \<times> 5\<close> input with \<open>k = 3\<close>, \<open>s = 2\<close> the result is \<open>2 \<times> 2\<close>, where
  \<open>(ceil(4/2), ceil(5/2)) = (2, 3)\<close>.
\<close>

theorem SamePad2d_Conv2d_nonsquare:
  "map_sum id shape (forward num path (Sequential [SamePad2d_init 3 2, Conv2d 1 1 3 2 0])
      (mk4 1 1 4 5 (\<lambda>n c h w. 0))) = Inr [1, 1, 2, 2]
   \<and> py_ceil_div 4 2 = Inr 2 \<and> py_ceil_div 5 2 = Inr 3"
  by (simp add: SamePad2d_init_def pair_of_def SamePad2d_forward_def tensor_size_def
      SamePad2d_padding_def py_ceil_div_def bind_e_def F_pad_def Let_def lib_layer_def conv_out_def)

section \<open>SamePad2d keeps the input\<close>

text \<open>
  For a SamePad2d whose kernel size is at least its (positive) stride in each dimension,
  and every 4-D input, the computed pads are not negative, the right/bottom pad exceeds
  the left/top pad by 0 or 1, the output holds the input unchanged in the rectangle that
  starts at \<open>(pad_top, pad_left)\<close>, and every other cell of the output is 0.
\<close>

theorem SamePad2d_forward_frame:
  assumes "shape t = [N, C, H, W]" and "0 < s0" and "0 < s1" and "s0 \<le> k0" and "s1 \<le> k1"
  shows "\<exists>pad_left pad_right pad_top pad_bottom out.
     SamePad2d_padding (k0, k1) (s0, s1) (int H) (int W)
       = Inr (pad_left, pad_right, pad_top, pad_bottom)
   \<and> SamePad2d_forward (k0, k1) (s0, s1) t = Inr out
   \<and> 0 \<le> pad_left \<and> 0 \<le> pad_top
   \<and> pad_right - pad_left \<in> {0, 1} \<and> pad_bottom - pad_top \<in> {0, 1}
   \<and> shape out = [N, C, nat pad_top + H + nat pad_bottom, nat pad_left + W + nat pad_right]
   \<and> (\<forall>n<N. \<forall>c<C. \<forall>h<H. \<forall>w<W.
         get4 out n c (nat pad_top + h) (nat pad_left + w) = get4 t n c h w)
   \<and> (\<forall>n<N. \<forall>c<C. \<forall>i < nat pad_top + H + nat pad_bottom. \<forall>j < nat pad_left + W + nat pad_right.
         (i < nat pad_top \<or> nat pad_top + H \<le> i \<or> j < nat pad_left \<or> nat pad_left + W \<le> j)
         \<longrightarrow> get4 out n c i j = 0)"
proof -
  define pw where "pw = pad_along k0 s0 (int H)"
  define ph where "ph = pad_along k1 s1 (int W)"
  define pl where "pl = pw div 2"
  define pr where "pr = pw - pl"
  define pt where "pt = ph div 2"
  define pb where "pb = ph - pt"
  have pw0: "0 \<le> pw" and ph0: "0 \<le> ph"
    using pad_along_bounds(1)[OF assms(2), of k0 "int H"] pad_along_bounds(1)[OF assms(3), of k1 "int W"]
      assms(4,5) by (simp_all add: pw_def ph_def)
  have nonneg: "0 \<le> pl" "0 \<le> pr" "0 \<le> pt" "0 \<le> pb"
    using pw0 ph0 by (simp_all add: pl_def pr_def pt_def pb_def)
  have split: "pr - pl \<in> {0, 1}" "pb - pt \<in> {0, 1}"
    unfolding pl_def pr_def pt_def pb_def by auto
  have padding: "SamePad2d_padding (k0, k1) (s0, s1) (int H) (int W) = Inr (pl, pr, pt, pb)"
    using assms(2,3) by (simp add: SamePad2d_padding_eq pl_def pr_def pt_def pb_def pw_def ph_def)
  define H' where "H' = nat pt + H + nat pb"
  define W' where "W' = nat pl + W + nat pr"
  define f where "f = (\<lambda>n c i j. if 0 \<le> int i - pt \<and> int i - pt < int H \<and> 0 \<le> int j - pl \<and> int j - pl < int W
                       then get4 t n c (nat (int i - pt)) (nat (int j - pl)) else 0)"
  have sizes: "nat (int H + pt + pb) = H'" "nat (int W + pl + pr) = W'"
    using nonneg by (simp_all add: H'_def W'_def)
  have fwd: "SamePad2d_forward (k0, k1) (s0, s1) t = Inr (mk4 N C H' W' f)"
    using assms(1,2,3) nonneg F_pad_ok[OF assms(1), of pt pb pl pr] sizes
    by (simp add: SamePad2d_forward_eq pl_def[symmetric] pr_def[symmetric] pt_def[symmetric]
        pb_def[symmetric] pw_def[symmetric] ph_def[symmetric] f_def)
  have inside: "get4 (mk4 N C H' W' f) n c (nat pt + h) (nat pl + w) = get4 t n c h w"
    if "n < N" "c < C" "h < H" "w < W" for n c h w
  proof -
    have "get4 (mk4 N C H' W' f) n c (nat pt + h) (nat pl + w) = f n c (nat pt + h) (nat pl + w)"
      using that by (intro get4_mk4) (simp_all add: H'_def W'_def)
    also have "\<dots> = get4 t n c h w"
      using that nonneg by (simp add: f_def)
    finally show ?thesis .
  qed
  have outside: "get4 (mk4 N C H' W' f) n c i j = 0"
    if "n < N" "c < C" "i < H'" "j < W'"
      and "i < nat pt \<or> nat pt + H \<le> i \<or> j < nat pl \<or> nat pl + W \<le> j" for n c i j
  proof -
    have "get4 (mk4 N C H' W' f) n c i j = f n c i j"
      using that by (intro get4_mk4)
    also have "\<dots> = 0"
      using that(5) nonneg unfolding f_def by auto
    finally show ?thesis .
  qed
  show ?thesis
    apply (rule exI[of _ pl], rule exI[of _ pr], rule exI[of _ pt], rule exI[of _ pb],
        rule exI[of _ "mk4 N C H' W' f"])
    using padding fwd nonneg split inside outside
    by (simp add: H'_def[symmetric] W'_def[symmetric])
qed

theorem SamePad2d_forward_frame_witness:
  "shape \<lparr>shape = [1, 1, 2, 2], data = [1, 2, 3, 4]\<rparr> = [1, 1, 2, 2] \<and> (0::int) < 2 \<and> (2::int) \<le> 3 \<and>
   (\<exists>pad_left pad_right pad_top pad_bottom out.
     SamePad2d_padding (3, 3) (2, 2) (int 2) (int 2)
       = Inr (pad_left, pad_right, pad_top, pad_bottom)
   \<and> SamePad2d_forward (3, 3) (2, 2) \<lparr>shape = [1, 1, 2, 2], data = [1, 2, 3, 4]\<rparr> = Inr out
   \<and> 0 \<le> pad_left \<and> 0 \<le> pad_top
   \<and> pad_right - pad_left \<in> {0, 1} \<and> pad_bottom - pad_top \<in> {0, 1}
   \<and> shape out = [1, 1, nat pad_top + 2 + nat pad_bottom, nat pad_left + 2 + nat pad_right]
   \<and> (\<forall>n<1. \<forall>c<1. \<forall>h<2. \<forall>w<2.
         get4 out n c (nat pad_top + h) (nat pad_left + w)
           = get4 \<lparr>shape = [1, 1, 2, 2], data = [1, 2, 3, 4]\<rparr> n c h w)
   \<and> (\<forall>n<1. \<forall>c<1. \<forall>i < nat pad_top + 2 + nat pad_bottom. \<forall>j < nat pad_left + 2 + nat pad_right.
         (i < nat pad_top \<or> nat pad_top + 2 \<le> i \<or> j < nat pad_left \<or> nat pad_left + 2 \<le> j)
         \<longrightarrow> get4 out n c i j = 0))"
  using SamePad2d_forward_frame [of "\<lparr>shape = [1, 1, 2, 2], data = [1, 2, 3, 4]\<rparr>" 1 1 2 2 2 2 3 3]
  by simp

text \<open>
  Claim C10: SamePad2d only adds zero-valued border cells and never alters input values:
  the output restricted to the rectangle at offset \<open>(pad_top, pad_left)\<close> is the input, the
  added cells are 0, and the right/bottom pad exceeds the left/top pad by at most one.

  The forward pass computes the total padding by the formula of TensorFlow's SAME
  padding without its clamp at 0. With a kernel smaller than the stride the total is
  negative and \<^verbatim>\<open>F.pad\<close> crops: \<^verbatim>\<open>SamePad2d(1, 2)\<close> on the plane \<open>[[1, 2], [3, 4]]\<close>
  gets the pads \<open>(-1, 0, -1, 0)\<close> and returns \<open>[[4]]\<close>. The program's own constructor
  reaches the case: \<^verbatim>\<open>RPN\<close> with anchor stride 4 builds \<^verbatim>\<open>SamePad2d(3, 4)\<close>, whose pads on
  a \<open>4 \<times> 4\<close> map are \<open>(-1, 0, -1, 0)\<close> again.
\<close>

theorem SamePad2d_forward_crops:
  "SamePad2d_padding (1, 1) (2, 2) 2 2 = Inr (- 1, 0, - 1, 0) \<and>
   SamePad2d_forward (1, 1) (2, 2) \<lparr>shape = [1, 1, 2, 2], data = [1, 2, 3, 4]\<rparr>
     = Inr \<lparr>shape = [1, 1, 1, 1], data = [4]\<rparr> \<and>
   RPN.padding (RPN_init 3 4 256) = SamePad2d (3, 3) (4, 4) \<and>
   SamePad2d_padding (3, 3) (4, 4) 4 4 = Inr (- 1, 0, - 1, 0)"
  by (simp add: SamePad2d_forward_def tensor_size_def SamePad2d_padding_def py_ceil_div_def
      bind_e_def F_pad_def Let_def mk4_def rows_def get4_def RPN_init_def SamePad2d_init_def
      pair_of_def)

section \<open>ResNet: construction and the optional fifth stage\<close>

text \<open>
  Claim C4: constructing a ResNet raises exactly when the architecture name is neither
  \<^verbatim>\<open>resnet50\<close> nor \<^verbatim>\<open>resnet101\<close> (the assertion fails); for the two names the
  construction succeeds and the fourth stage \<^verbatim>\<open>C4\<close> has 6, respectively 23, blocks.
\<close>

theorem ResNet_init_architecture:
  "(isl (ResNet_init architecture stage5_arg)
      \<longleftrightarrow> architecture \<noteq> ''resnet50'' \<and> architecture \<noteq> ''resnet101'')
   \<and> (isl (ResNet_init architecture stage5_arg)
      \<longleftrightarrow> ResNet_init architecture stage5_arg = Inl AssertionError)
   \<and> (\<exists>r. ResNet_init ''resnet50'' stage5_arg = Inr r
          \<and> layers r = [3, 4, 6, 3] \<and> len_module (ResNet.C4 r) = 6)
   \<and> (\<exists>r. ResNet_init ''resnet101'' stage5_arg = Inr r
          \<and> layers r = [3, 4, 23, 3] \<and> len_module (ResNet.C4 r) = 23)"
  by (auto simp: ResNet_init_def Let_def make_layer_def split: prod.splits)

text \<open>
  Claim C3: a ResNet constructed with \<^verbatim>\<open>stage5=False\<close> is a usable backbone whose forward
  pass completes without the fifth stage.

  The constructor sets \<^verbatim>\<open>self.C5 = None\<close> and \<^verbatim>\<open>forward\<close> calls \<^verbatim>\<open>self.C5(x)\<close>
  all the same: the forward pass returns on no input, and raises TypeError as soon as
  the first four stages have run.
\<close>

theorem ResNet_forward_stage5_None:
  "\<exists>r. ResNet_init ''resnet50'' False = Inr r
     \<and> ResNet.C5 r = None
     \<and> (\<forall>num path x. isl (ResNet_forward num path r x))
     \<and> (\<forall>num path x.
          ResNet_forward num path r x =
            bind_e (call num path ''C1'' (ResNet.C1 r) x) (\<lambda>x.
            bind_e (call num path ''C2'' (ResNet.C2 r) x) (\<lambda>x.
            bind_e (call num path ''C3'' (ResNet.C3 r) x) (\<lambda>x.
            bind_e (call num path ''C4'' (ResNet.C4 r) x) (\<lambda>x. Inl TypeError)))))"
  by (auto simp: ResNet_init_def Let_def ResNet_forward_def call_opt_def bind_e_def
      split: prod.splits sum.splits)

section \<open>FPN: the pyramid levels\<close>

text \<open>
  Claim C2: \<^verbatim>\<open>FPN.forward\<close> returns \<open>[P2, P3, P4, P5, P6]\<close> exactly when the maps below
  exist: the backbone maps of the stages \<^verbatim>\<open>C1\<close> to \<^verbatim>\<open>C5\<close>; (i) each of them projected
  to the common width by a \<open>1 \<times> 1\<close> convolution (\<open>l5\<close>, \<open>l4\<close>, \<open>l3\<close>, \<open>l2\<close>); (ii) for P4, P3 and
  P2 the projection plus the 2x upsampled merged map of the next coarser level (\<open>m4\<close>,
  \<open>m3\<close>, \<open>m2\<close>; the map upsampled is the one before smoothing); (iii) each merged map
  smoothed by SamePad2d(3, 1) and a \<open>3 \<times> 3\<close> convolution; and P6, the max pooling with
  kernel 1 and stride 2 of the smoothed P5, which keeps the cells of P5 with even
  indices. Whenever a stage, a layer or an addition raises, so does the forward pass.
\<close>

theorem FPN_forward_levels:
  "FPN_forward num path (FPN_init c1 c2 c3 c4 c5 oc) x = Inr ys \<longleftrightarrow>
   (\<exists>x1 c2_out c3_out c4_out c5_out l5 l4 l3 l2 u5 u4 u3 m4 m3 m2 p2 p3 p4 p5 p6.
        call num path ''C1'' c1 x = Inr x1
      \<and> call num path ''C2'' c2 x1 = Inr c2_out
      \<and> call num path ''C3'' c3 c2_out = Inr c3_out
      \<and> call num path ''C4'' c4 c3_out = Inr c4_out
      \<and> call num path ''C5'' c5 c4_out = Inr c5_out
      \<and> call num path ''P5_conv1'' (Conv2d 2048 oc 1 1 0) c5_out = Inr l5
      \<and> call num path ''P4_conv1'' (Conv2d 1024 oc 1 1 0) c4_out = Inr l4
      \<and> call num path ''P3_conv1'' (Conv2d 512 oc 1 1 0) c3_out = Inr l3
      \<and> call num path ''P2_conv1'' (Conv2d 256 oc 1 1 0) c2_out = Inr l2
      \<and> upsample l5 2 = Inr u5 \<and> tensor_add l4 u5 = Inr m4
      \<and> upsample m4 2 = Inr u4 \<and> tensor_add l3 u4 = Inr m3
      \<and> upsample m3 2 = Inr u3 \<and> tensor_add l2 u3 = Inr m2
      \<and> call num path ''P5_conv2'' (Sequential [SamePad2d_init 3 1, Conv2d oc oc 3 1 0]) l5 = Inr p5
      \<and> call num path ''P4_conv2'' (Sequential [SamePad2d_init 3 1, Conv2d oc oc 3 1 0]) m4 = Inr p4
      \<and> call num path ''P3_conv2'' (Sequential [SamePad2d_init 3 1, Conv2d oc oc 3 1 0]) m3 = Inr p3
      \<and> call num path ''P2_conv2'' (Sequential [SamePad2d_init 3 1, Conv2d oc oc 3 1 0]) m2 = Inr p2
      \<and> call num path ''P6'' (MaxPool2d 1 2) p5 = Inr p6
      \<and> p6 = downsample2 p5
      \<and> ys = [p2, p3, p4, p5, p6])"
  (is "?L \<longleftrightarrow> ?R")
proof
  assume ?L
  then obtain x1 c2_out c3_out c4_out c5_out l5 l4 u5 m4 l3 u4 m3 l2 u3 m2 p5 p4 p3 p2 p6 where
    h: "call num path ''C1'' c1 x = Inr x1"
      "call num path ''C2'' c2 x1 = Inr c2_out"
      "call num path ''C3'' c3 c2_out = Inr c3_out"
      "call num path ''C4'' c4 c3_out = Inr c4_out"
      "call num path ''C5'' c5 c4_out = Inr c5_out"
      "call num path ''P5_conv1'' (Conv2d 2048 oc 1 1 0) c5_out = Inr l5"
      "call num path ''P4_conv1'' (Conv2d 1024 oc 1 1 0) c4_out = Inr l4"
      "upsample l5 2 = Inr u5" "tensor_add l4 u5 = Inr m4"
      "call num path ''P3_conv1'' (Conv2d 512 oc 1 1 0) c3_out = Inr l3"
      "upsample m4 2 = Inr u4" "tensor_add l3 u4 = Inr m3"
      "call num path ''P2_conv1'' (Conv2d 256 oc 1 1 0) c2_out = Inr l2"
      "upsample m3 2 = Inr u3" "tensor_add l2 u3 = Inr m2"
      "call num path ''P5_conv2'' (Sequential [SamePad2d_init 3 1, Conv2d oc oc 3 1 0]) l5 = Inr p5"
      "call num path ''P4_conv2'' (Sequential [SamePad2d_init 3 1, Conv2d oc oc 3 1 0]) m4 = Inr p4"
      "call num path ''P3_conv2'' (Sequential [SamePad2d_init 3 1, Conv2d oc oc 3 1 0]) m3 = Inr p3"
      "call num path ''P2_conv2'' (Sequential [SamePad2d_init 3 1, Conv2d oc oc 3 1 0]) m2 = Inr p2"
      "call num path ''P6'' (MaxPool2d 1 2) p5 = Inr p6"
      "ys = [p2, p3, p4, p5, p6]"
    unfolding FPN_forward_def FPN_init_def Let_def bind_e_Inr_iff by auto
  obtain N H W where "shape p5 = [N, oc, H, W]" "0 < H" "0 < W"
    using smooth_result_shape[OF h(16)] by blast
  then have "p6 = downsample2 p5"
    using h(20) max_pool2d_1_2 by (simp add: call_def)
  with h show ?R by blast
next
  assume ?R
  then show ?L
    unfolding FPN_forward_def FPN_init_def Let_def bind_e_Inr_iff by auto
qed

section \<open>RPN: flattening and normalisation\<close>

text \<open>
  Claim C5: the class logits \<open>[batch, anchors, 2]\<close> and the box deltas \<open>[batch, anchors, 4]\<close>
  are flattened from the maps of \<^verbatim>\<open>conv_class\<close> and \<^verbatim>\<open>conv_bbox\<close> by the same
  reordering: whenever \<^verbatim>\<open>RPN.forward\<close> returns, for every batch element and every flat
  anchor index \<open>i\<close> the class pair at \<open>i\<close> is read from channels \<open>2 a\<close>, \<open>2 a + 1\<close> and the
  delta at \<open>i\<close> from channels \<open>4 a\<close> to \<open>4 a + 3\<close>, at the same location \<open>(h, w)\<close> and the
  same slot \<open>a\<close>, where \<open>i = (h W + w) A + a\<close>.
\<close>

theorem RPN_forward_anchor_order:
  assumes "RPN_forward num path (RPN_init A s d) x = Inr outs"
  shows "\<exists>x0 x1 cls box B H W rpn_class_logits rpn_probs rpn_bbox.
      call num path ''padding'' (SamePad2d_init 3 (int s)) x = Inr x0
    \<and> call num path ''conv_shared'' (Conv2d d 512 3 s 0) x0 = Inr x1
    \<and> call num path ''conv_class'' (Conv2d 512 (2 * A) 1 1 0) (F_relu x1) = Inr cls
    \<and> call num path ''conv_bbox'' (Conv2d 512 (4 * A) 1 1 0) (F_relu x1) = Inr box
    \<and> shape cls = [B, 2 * A, H, W] \<and> shape box = [B, 4 * A, H, W]
    \<and> outs = [rpn_class_logits, rpn_probs, rpn_bbox]
    \<and> shape rpn_class_logits = [B, H * W * A, 2]
    \<and> shape rpn_bbox = [B, H * W * A, 4]
    \<and> (\<forall>b<B. \<forall>i<H * W * A.
          (\<forall>j<2. get3 rpn_class_logits b i j
                    = get4 cls b (2 * (i mod A) + j) (i div (A * W)) (i div A mod W))
        \<and> (\<forall>j<4. get3 rpn_bbox b i j
                    = get4 box b (4 * (i mod A) + j) (i div (A * W)) (i div A mod W)))"
proof -
  from RPN_forward_parts[OF assms] obtain x0 x1 cls box B H W probs where
    h: "call num path ''padding'' (SamePad2d_init 3 (int s)) x = Inr x0"
       "call num path ''conv_shared'' (Conv2d d 512 3 s 0) x0 = Inr x1"
       "call num path ''conv_class'' (Conv2d 512 (2 * A) 1 1 0) (F_relu x1) = Inr cls"
       "call num path ''conv_bbox'' (Conv2d 512 (4 * A) 1 1 0) (F_relu x1) = Inr box"
       "shape cls = [B, 2 * A, H, W]" "shape box = [B, 4 * A, H, W]"
       "outs = [(mk4 B H W (2 * A) (\<lambda>b h w c. get4 cls b c h w))\<lparr>shape := [B, H * W * A, 2]\<rparr>,
               probs,
               (mk4 B H W (4 * A) (\<lambda>b h w c. get4 box b c h w))\<lparr>shape := [B, H * W * A, 4]\<rparr>]"
    by blast
  define lg where "lg = (mk4 B H W (2 * A) (\<lambda>b h w c. get4 cls b c h w))\<lparr>shape := [B, H * W * A, 2]\<rparr>"
  define bb where "bb = (mk4 B H W (4 * A) (\<lambda>b h w c. get4 box b c h w))\<lparr>shape := [B, H * W * A, 4]\<rparr>"
  have a1: "get3 lg b i j = get4 cls b (2 * (i mod A) + j) (i div (A * W)) (i div A mod W)"
    if "b < B" "i < H * W * A" "j < 2" for b i j
    using flatten_align[OF that, of "\<lambda>b h w c. get4 cls b c h w"]
    by (simp add: lg_def get3_def)
  have a2: "get3 bb b i j = get4 box b (4 * (i mod A) + j) (i div (A * W)) (i div A mod W)"
    if "b < B" "i < H * W * A" "j < 4" for b i j
    using flatten_align[OF that, of "\<lambda>b h w c. get4 box b c h w"]
    by (simp add: bb_def get3_def)
  have s: "shape lg = [B, H * W * A, 2]" "shape bb = [B, H * W * A, 4]"
    by (simp_all add: lg_def bb_def)
  show ?thesis
    using h(1-6) h(7)[folded lg_def bb_def] s a1 a2 by blast
qed

theorem RPN_forward_anchor_order_witness:
  "\<exists>outs. RPN_forward (\<lambda>p m t i. 0) [] (RPN_init 3 1 1) (mk4 1 1 2 3 (\<lambda>n c h w. 0)) = Inr outs \<and>
   (\<exists>x0 x1 cls box B H W rpn_class_logits rpn_probs rpn_bbox.
      call (\<lambda>p m t i. 0) [] ''padding'' (SamePad2d_init 3 (int 1)) (mk4 1 1 2 3 (\<lambda>n c h w. 0)) = Inr x0
    \<and> call (\<lambda>p m t i. 0) [] ''conv_shared'' (Conv2d 1 512 3 1 0) x0 = Inr x1
    \<and> call (\<lambda>p m t i. 0) [] ''conv_class'' (Conv2d 512 (2 * 3) 1 1 0) (F_relu x1) = Inr cls
    \<and> call (\<lambda>p m t i. 0) [] ''conv_bbox'' (Conv2d 512 (4 * 3) 1 1 0) (F_relu x1) = Inr box
    \<and> shape cls = [B, 2 * 3, H, W] \<and> shape box = [B, 4 * 3, H, W]
    \<and> outs = [rpn_class_logits, rpn_probs, rpn_bbox]
    \<and> shape rpn_class_logits = [B, H * W * 3, 2]
    \<and> shape rpn_bbox = [B, H * W * 3, 4]
    \<and> (\<forall>b<B. \<forall>i<H * W * 3.
          (\<forall>j<2. get3 rpn_class_logits b i j
                    = get4 cls b (2 * (i mod 3) + j) (i div (3 * W)) (i div 3 mod W))
        \<and> (\<forall>j<4. get3 rpn_bbox b i j
                    = get4 box b (4 * (i mod 3) + j) (i div (3 * W)) (i div 3 mod W))))"
proof -
  have "shape (mk4 1 1 2 3 (\<lambda>n c h w. 0)) = [1, 1, 2, 3]" by simp
  from RPN_forward_returns[OF this, where num = "\<lambda>p m t i. 0" and path = "[]" and A = 3]
  obtain outs where h: "RPN_forward (\<lambda>p m t i. 0) [] (RPN_init 3 1 1) (mk4 1 1 2 3 (\<lambda>n c h w. 0)) = Inr outs"
    by auto
  from RPN_forward_anchor_order[OF h] h show ?thesis by blast
qed

text \<open>
  Claim C9: whenever \<^verbatim>\<open>RPN.forward\<close> returns, for every batch element and every flat
  anchor index the two entries of \<^verbatim>\<open>rpn_probs\<close> are the softmax of the two logits of
  that anchor alone; each lies in \<open>[0, 1]\<close> and they sum to 1.
\<close>

theorem RPN_probs_normalised:
  assumes "RPN_forward num path (RPN_init A s d) x = Inr outs"
  shows "\<exists>rpn_class_logits rpn_probs rpn_bbox B M.
      outs = [rpn_class_logits, rpn_probs, rpn_bbox]
    \<and> shape rpn_class_logits = [B, M, 2] \<and> shape rpn_probs = [B, M, 2]
    \<and> (\<forall>b<B. \<forall>i<M.
          get3 rpn_probs b i 0 = exp (get3 rpn_class_logits b i 0)
             / (exp (get3 rpn_class_logits b i 0) + exp (get3 rpn_class_logits b i 1))
        \<and> get3 rpn_probs b i 1 = exp (get3 rpn_class_logits b i 1)
             / (exp (get3 rpn_class_logits b i 0) + exp (get3 rpn_class_logits b i 1))
        \<and> 0 \<le> get3 rpn_probs b i 0 \<and> get3 rpn_probs b i 0 \<le> 1
        \<and> 0 \<le> get3 rpn_probs b i 1 \<and> get3 rpn_probs b i 1 \<le> 1
        \<and> get3 rpn_probs b i 0 + get3 rpn_probs b i 1 = 1)"
proof -
  from RPN_forward_parts[OF assms] obtain cls box B H W probs where
    sm: "F_softmax 2 ((mk4 B H W (2 * A) (\<lambda>b h w c. get4 cls b c h w))\<lparr>shape := [B, H * W * A, 2]\<rparr>)
         = Inr probs"
    and outs: "outs = [(mk4 B H W (2 * A) (\<lambda>b h w c. get4 cls b c h w))\<lparr>shape := [B, H * W * A, 2]\<rparr>,
               probs,
               (mk4 B H W (4 * A) (\<lambda>b h w c. get4 box b c h w))\<lparr>shape := [B, H * W * A, 4]\<rparr>]"
    by blast
  define lg where "lg = (mk4 B H W (2 * A) (\<lambda>b h w c. get4 cls b c h w))\<lparr>shape := [B, H * W * A, 2]\<rparr>"
  have sh: "shape lg = [B, H * W * A, 2]" by (simp add: lg_def)
  have len: "length (data lg) = B * (H * W * A) * 2"
    by (simp add: lg_def length_data_mk4)
  have p: "shape probs = [B, H * W * A, 2]"
    using sm[folded lg_def] sh by (auto simp: F_softmax_def Let_def)
  have v: "get3 probs b i 0 = exp (get3 lg b i 0) / (exp (get3 lg b i 0) + exp (get3 lg b i 1))
         \<and> get3 probs b i 1 = exp (get3 lg b i 1) / (exp (get3 lg b i 0) + exp (get3 lg b i 1))"
    if "b < B" "i < H * W * A" for b i
    using softmax_pair[OF sh len that] sm[folded lg_def] by auto
  have "get3 probs b i 0 = exp (get3 lg b i 0) / (exp (get3 lg b i 0) + exp (get3 lg b i 1))
        \<and> get3 probs b i 1 = exp (get3 lg b i 1) / (exp (get3 lg b i 0) + exp (get3 lg b i 1))
        \<and> 0 \<le> get3 probs b i 0 \<and> get3 probs b i 0 \<le> 1
        \<and> 0 \<le> get3 probs b i 1 \<and> get3 probs b i 1 \<le> 1
        \<and> get3 probs b i 0 + get3 probs b i 1 = 1"
    if "b < B" "i < H * W * A" for b i
    using v[OF that] softmax_pair_bounds[of "get3 lg b i 0" "get3 lg b i 1"]
      softmax_pair_bounds(1,2)[of "get3 lg b i 1" "get3 lg b i 0"]
    by (simp add: add.commute)
  then show ?thesis
    using outs[folded lg_def] sh p by blast
qed

theorem RPN_probs_normalised_witness:
  "\<exists>outs. RPN_forward (\<lambda>p m t i. 0) [] (RPN_init 3 1 1) (mk4 1 1 2 3 (\<lambda>n c h w. 0)) = Inr outs \<and>
   (\<exists>rpn_class_logits rpn_probs rpn_bbox B M.
      outs = [rpn_class_logits, rpn_probs, rpn_bbox]
    \<and> shape rpn_class_logits = [B, M, 2] \<and> shape rpn_probs = [B, M, 2]
    \<and> (\<forall>b<B. \<forall>i<M.
          get3 rpn_probs b i 0 = exp (get3 rpn_class_logits b i 0)
             / (exp (get3 rpn_class_logits b i 0) + exp (get3 rpn_class_logits b i 1))
        \<and> get3 rpn_probs b i 1 = exp (get3 rpn_class_logits b i 1)
             / (exp (get3 rpn_class_logits b i 0) + exp (get3 rpn_class_logits b i 1))
        \<and> 0 \<le> get3 rpn_probs b i 0 \<and> get3 rpn_probs b i 0 \<le> 1
        \<and> 0 \<le> get3 rpn_probs b i 1 \<and> get3 rpn_probs b i 1 \<le> 1
        \<and> get3 rpn_probs b i 0 + get3 rpn_probs b i 1 = 1))"
proof -
  have "shape (mk4 1 1 2 3 (\<lambda>n c h w. 0)) = [1, 1, 2, 3]" by simp
  from RPN_forward_returns[OF this, where num = "\<lambda>p m t i. 0" and path = "[]" and A = 3]
  obtain outs where h: "RPN_forward (\<lambda>p m t i. 0) [] (RPN_init 3 1 1) (mk4 1 1 2 3 (\<lambda>n c h w. 0)) = Inr outs"
    by auto
  from RPN_probs_normalised[OF h] h show ?thesis by blast
qed

section \<open>Classifier head: the three outputs\<close>

text \<open>
  Claim C8: for a batch of \<open>N\<close> pooled regions (the output of \<^verbatim>\<open>pyramid_roi_align\<close>, of
  shape \<open>[N, depth, pool_size, pool_size]\<close>), whenever \<^verbatim>\<open>Classifier.forward\<close> returns it
  has run two convolution layers, flattened to a 1024-dimensional feature vector per
  region, and its three outputs are the class logits of shape \<open>[N, num_classes]\<close>, their
  softmax over the classes with the same shape (each row sums to 1), and the box deltas
  of shape \<open>[N, num_classes, 4]\<close>. The forward pass returns on every batch of at least two
  regions; on a single region the batch normalisation of the module as constructed
  raises, and on no region the last \<^verbatim>\<open>view\<close> does.
\<close>

theorem Classifier_forward_shapes:
  assumes "pyramid_roi_align ([rois] @ x) pool img = Inr r"
    and "shape r = [N, d, pool, pool]"
    and "Classifier_forward num pyramid_roi_align path (Classifier_init d pool img nc) x rois
           = Inr outs"
  shows "\<exists>a1 b1 a2 b2 feat mrcnn_class_logits mrcnn_probs mrcnn_bbox.
      call num path ''conv1'' (Conv2d d 1024 pool 1 0) r = Inr a1
    \<and> call num path ''bn1'' (BatchNorm2d 1024) a1 = Inr b1
    \<and> call num path ''conv2'' (Conv2d 1024 1024 1 1 0) (F_relu b1) = Inr a2
    \<and> call num path ''bn2'' (BatchNorm2d 1024) a2 = Inr b2
    \<and> view (F_relu b2) [- 1, 1024] = Inr feat
    \<and> shape feat = [N, 1024]
    \<and> call num path ''linear_class'' (Linear 1024 nc) feat = Inr mrcnn_class_logits
    \<and> outs = [mrcnn_class_logits, mrcnn_probs, mrcnn_bbox]
    \<and> shape mrcnn_class_logits = [N, nc]
    \<and> shape mrcnn_probs = [N, nc]
    \<and> shape mrcnn_bbox = [N, nc, 4]
    \<and> (\<forall>n<N. \<forall>c<nc. get2 mrcnn_probs n c
           = exp (get2 mrcnn_class_logits n c)
             / sum_list (map (\<lambda>i. exp (get2 mrcnn_class_logits n i)) [0..<nc]))
    \<and> (\<forall>n<N. 0 < nc \<longrightarrow> sum_list (map (\<lambda>c. get2 mrcnn_probs n c) [0..<nc]) = 1)"
proof -
  have pool: "0 < pool"
    using Classifier_forward_raises(1)[where pyramid_roi_align = pyramid_roi_align and rois = rois and x = x and num = num and path = path and nc = nc, OF assms(1,2)] assms(3)
    by (cases "pool = 0") simp_all
  have N1: "N \<noteq> 1"
    using Classifier_forward_raises(2)[where pyramid_roi_align = pyramid_roi_align and rois = rois and x = x and num = num and path = path and nc = nc, OF assms(1,2) pool] assms(3)
    by (cases "N = 1") simp_all
  from Classifier_forward_chain[where pyramid_roi_align = pyramid_roi_align and rois = rois and x = x and num = num and path = path and nc = nc, OF assms(1,2) pool N1]
  obtain a1 b1 a2 b2 feat lg pr bb0 where
    h: "call num path ''conv1'' (Conv2d d 1024 pool 1 0) r = Inr a1"
       "call num path ''bn1'' (BatchNorm2d 1024) a1 = Inr b1"
       "call num path ''conv2'' (Conv2d 1024 1024 1 1 0) (F_relu b1) = Inr a2"
       "call num path ''bn2'' (BatchNorm2d 1024) a2 = Inr b2"
       "view (F_relu b2) [- 1, 1024] = Inr feat"
       "shape feat = [N, 1024]"
       "call num path ''linear_class'' (Linear 1024 nc) feat = Inr lg"
       "shape lg = [N, nc]"
       "shape pr = [N, nc]"
    and vpr: "\<forall>n<N. \<forall>c<nc. get2 pr n c
           = exp (get2 lg n c) / sum_list (map (\<lambda>i. exp (get2 lg n i)) [0..<nc])"
    and sbb0: "shape bb0 = [N, nc * 4]"
    and fwd: "Classifier_forward num pyramid_roi_align path (Classifier_init d pool img nc) x rois
         = bind_e (view bb0 [int N, - 1, 4]) (\<lambda>b. Inr [lg, pr, b])"
    by blast
  have "bind_e (view bb0 [int N, - 1, 4]) (\<lambda>b. Inr [lg, pr, b]) = Inr outs"
    using fwd assms(3) by simp
  then obtain b where b: "view bb0 [int N, - 1, 4] = Inr b" and outs: "outs = [lg, pr, b]"
    unfolding bind_e_Inr_iff by auto
  have N0: "0 < N" using b view_batch_pos by blast
  have "numel (shape bb0) = N * nc * 4" by (simp add: sbb0 numel_def)
  from view_infer[OF this N0] b
  have sb: "shape b = [N, nc, 4]" by auto
  have rows: "sum_list (map (\<lambda>c. get2 pr n c) [0..<nc]) = 1" if "n < N" "0 < nc" for n
  proof -
    have "map (\<lambda>c. get2 pr n c) [0..<nc]
        = map (\<lambda>c. exp (get2 lg n c) / sum_list (map (\<lambda>i. exp (get2 lg n i)) [0..<nc])) [0..<nc]"
      using vpr that(1) by simp
    then have "sum_list (map (\<lambda>c. get2 pr n c) [0..<nc])
        = sum_list (map (\<lambda>c. exp (get2 lg n c) / sum_list (map (\<lambda>i. exp (get2 lg n i)) [0..<nc])) [0..<nc])"
      by (rule arg_cong)
    then show ?thesis
      using softmax_row_sum[OF that(2), of "get2 lg n"] by (simp only:)
  qed
  show ?thesis
    using h outs sb vpr rows by force
qed

theorem Classifier_forward_shapes_witness:
  "\<exists>outs.
     (\<lambda>ts p im. Inr (mk4 2 1 7 7 (\<lambda>n c h w. 0))) ([\<lparr>shape = [2, 4], data = []\<rparr>] @ []) 7 [64, 64]
        = (Inr (mk4 2 1 7 7 (\<lambda>n c h w. 0)) :: error + tensor)
   \<and> shape (mk4 2 1 7 7 (\<lambda>n c h w. 0)) = [2, 1, 7, 7]
   \<and> Classifier_forward (\<lambda>p m t i. 0) (\<lambda>ts p im. Inr (mk4 2 1 7 7 (\<lambda>n c h w. 0))) []
           (Classifier_init 1 7 [64, 64] 3) [] \<lparr>shape = [2, 4], data = []\<rparr> = Inr outs
   \<and> (\<exists>mrcnn_class_logits mrcnn_probs mrcnn_bbox.
        outs = [mrcnn_class_logits, mrcnn_probs, mrcnn_bbox]
      \<and> shape mrcnn_class_logits = [2, 3]
      \<and> shape mrcnn_probs = [2, 3]
      \<and> shape mrcnn_bbox = [2, 3, 4])"
proof -
  have h1: "(\<lambda>ts p im. Inr (mk4 2 1 7 7 (\<lambda>n c h w. 0))) ([\<lparr>shape = [2, 4], data = []\<rparr>] @ []) 7 [64, 64]
      = (Inr (mk4 2 1 7 7 (\<lambda>n c h w. 0)) :: error + tensor)" by simp
  have h2: "shape (mk4 2 1 7 7 (\<lambda>n c h w. 0)) = [2, 1, 7, 7]" by simp
  have h3: "(0::nat) < 7" "(2::nat) \<le> 2" by simp_all
  from Classifier_forward_returns[where pyramid_roi_align = "\<lambda>ts p im. Inr (mk4 2 1 7 7 (\<lambda>n c h w. 0))"
      and rois = "\<lparr>shape = [2, 4], data = []\<rparr>" and x = "[]" and num = "\<lambda>p m t i. 0" and path = "[]" and nc = 3, OF h1 h2 h3]
  obtain outs where h4:
    "Classifier_forward (\<lambda>p m t i. 0) (\<lambda>ts p im. Inr (mk4 2 1 7 7 (\<lambda>n c h w. 0))) []
           (Classifier_init 1 7 [64, 64] 3) [] \<lparr>shape = [2, 4], data = []\<rparr> = Inr outs"
    by blast
  from Classifier_forward_shapes[where pyramid_roi_align = "\<lambda>ts p im. Inr (mk4 2 1 7 7 (\<lambda>n c h w. 0))"
      and rois = "\<lparr>shape = [2, 4], data = []\<rparr>" and x = "[]", OF h1 h2 h4] h1 h2 h4
  show ?thesis by auto
qed

section \<open>The total loss\<close>

text \<open>
  Claim C6: \<^verbatim>\<open>compute_loss\<close> returns the unweighted sum of the five task losses (RPN
  classification, RPN box regression, head classification, head box regression, mask)
  and the list of these five losses in that order. It returns exactly when the network
  outputs are at least eight and the five loss functions return.
\<close>

theorem compute_loss_sum:
  "compute_loss fns target_rpn_match target_rpn_bbox inputs = Inr (loss, outputs) \<longleftrightarrow>
   (8 \<le> length inputs \<and>
    (\<exists>l1 l2 l3 l4 l5.
        rpn_class_loss_fn fns target_rpn_match (inputs ! 0) = Inr l1
      \<and> rpn_bbox_loss_fn fns target_rpn_bbox target_rpn_match (inputs ! 1) = Inr l2
      \<and> mrcnn_class_loss_fn fns (inputs ! 2) (inputs ! 3) = Inr l3
      \<and> mrcnn_bbox_loss_fn fns (inputs ! 4) (inputs ! 2) (inputs ! 5) = Inr l4
      \<and> mrcnn_mask_loss_fn fns (inputs ! 6) (inputs ! 2) (inputs ! 7) = Inr l5
      \<and> outputs = [l1, l2, l3, l4, l5]
      \<and> loss = l1 + l2 + l3 + l4 + l5))"
  by (auto simp: compute_loss_def bind_e_Inr_iff py_index_Inr_iff py_sum_def Let_def)

text \<open>
  Claim C7: each of the five loss terms is exactly 0, and raises nothing, when its
  target set is empty: the non-neutral anchors for the RPN classification, the positive
  anchors for the RPN box regression, the regions for the head classification, the
  positive regions for the head box regression and for the mask. With all five sets
  empty \<^verbatim>\<open>compute_loss\<close> returns the total 0.
\<close>

theorem losses_zero_on_empty_targets:
  "(non_neutral_anchors rpn_match = [] \<longrightarrow> compute_rpn_class_loss rpn_match rpn_class_logits = Inr 0)
 \<and> (positive_anchors rpn_match = [] \<longrightarrow> compute_rpn_bbox_loss target_bbox rpn_match rpn_bbox = Inr 0)
 \<and> (all_rois target_class_ids = [] \<longrightarrow> compute_mrcnn_class_loss target_class_ids mrcnn_class_logits = Inr 0)
 \<and> (positive_rois target_class_ids = [] \<longrightarrow> compute_mrcnn_bbox_loss target_deltas target_class_ids mrcnn_bbox = Inr 0)
 \<and> (positive_rois target_class_ids = [] \<longrightarrow> compute_mrcnn_mask_loss target_mask target_class_ids mrcnn_mask = Inr 0)
 \<and> (non_neutral_anchors rpn_match = [] \<and> all_rois target_class_ids = [] \<longrightarrow>
      compute_loss spec_losses rpn_match target_bbox
        [rpn_class_logits, rpn_bbox, target_class_ids, mrcnn_class_logits, target_deltas,
         mrcnn_bbox, target_mask, mrcnn_mask] = Inr (0, [0, 0, 0, 0, 0]))"
proof -
  have pa: "positive_anchors rpn_match = []" if "non_neutral_anchors rpn_match = []"
    using that by (auto simp: positive_anchors_def non_neutral_anchors_def filter_empty_conv)
  have pr: "positive_rois target_class_ids = []" if "all_rois target_class_ids = []"
    using that by (simp add: positive_rois_def all_rois_def)
  show ?thesis
    using pa pr
    by (simp add: compute_rpn_class_loss_def compute_rpn_bbox_loss_def compute_mrcnn_class_loss_def
        compute_mrcnn_bbox_loss_def compute_mrcnn_mask_loss_def compute_loss_def spec_losses_def
        py_index_def py_sum_def Let_def)
qed

theorem losses_zero_on_empty_targets_witness:
  "non_neutral_anchors \<lparr>shape = [1, 2, 1], data = [0, 0]\<rparr> = []
 \<and> positive_anchors \<lparr>shape = [1, 2, 1], data = [0, 0]\<rparr> = []
 \<and> all_rois \<lparr>shape = [0], data = []\<rparr> = []
 \<and> positive_rois \<lparr>shape = [0], data = []\<rparr> = []
 \<and> compute_rpn_class_loss \<lparr>shape = [1, 2, 1], data = [0, 0]\<rparr> \<lparr>shape = [1, 2, 2], data = [1, 2, 3, 4]\<rparr> = Inr 0
 \<and> compute_rpn_bbox_loss \<lparr>shape = [1, 2, 4], data = [0, 0, 0, 0, 0, 0, 0, 0]\<rparr>
      \<lparr>shape = [1, 2, 1], data = [0, 0]\<rparr> \<lparr>shape = [1, 2, 4], data = [1, 1, 1, 1, 1, 1, 1, 1]\<rparr> = Inr 0
 \<and> compute_mrcnn_class_loss \<lparr>shape = [0], data = []\<rparr> \<lparr>shape = [0, 2], data = []\<rparr> = Inr 0
 \<and> compute_mrcnn_bbox_loss \<lparr>shape = [0, 4], data = []\<rparr> \<lparr>shape = [0], data = []\<rparr>
      \<lparr>shape = [0, 2, 4], data = []\<rparr> = Inr 0
 \<and> compute_mrcnn_mask_loss \<lparr>shape = [0, 2, 2], data = []\<rparr> \<lparr>shape = [0], data = []\<rparr>
      \<lparr>shape = [0, 2, 2, 2], data = []\<rparr> = Inr 0
 \<and> compute_loss spec_losses \<lparr>shape = [1, 2, 1], data = [0, 0]\<rparr>
      \<lparr>shape = [1, 2, 4], data = [0, 0, 0, 0, 0, 0, 0, 0]\<rparr>
      [\<lparr>shape = [1, 2, 2], data = [1, 2, 3, 4]\<rparr>,
       \<lparr>shape = [1, 2, 4], data = [1, 1, 1, 1, 1, 1, 1, 1]\<rparr>,
       \<lparr>shape = [0], data = []\<rparr>, \<lparr>shape = [0, 2], data = []\<rparr>, \<lparr>shape = [0, 4], data = []\<rparr>,
       \<lparr>shape = [0, 2, 4], data = []\<rparr>, \<lparr>shape = [0, 2, 2], data = []\<rparr>,
       \<lparr>shape = [0, 2, 2, 2], data = []\<rparr>] = Inr (0, [0, 0, 0, 0, 0])"
proof -
  have a: "non_neutral_anchors \<lparr>shape = [1, 2, 1], data = [0, 0]\<rparr> = []"
    by (simp add: non_neutral_anchors_def upt_rec)
  have b: "positive_anchors \<lparr>shape = [1, 2, 1], data = [0, 0]\<rparr> = []"
    by (simp add: positive_anchors_def upt_rec)
  have c: "all_rois \<lparr>shape = [0], data = []\<rparr> = []"
    by (simp add: all_rois_def)
  have d: "positive_rois \<lparr>shape = [0], data = []\<rparr> = []"
    by (simp add: positive_rois_def)
  from losses_zero_on_empty_targets[of "\<lparr>shape = [1, 2, 1], data = [0, 0]\<rparr>"
      "\<lparr>shape = [1, 2, 2], data = [1, 2, 3, 4]\<rparr>"
      "\<lparr>shape = [1, 2, 4], data = [0, 0, 0, 0, 0, 0, 0, 0]\<rparr>"
      "\<lparr>shape = [1, 2, 4], data = [1, 1, 1, 1, 1, 1, 1, 1]\<rparr>"
      "\<lparr>shape = [0], data = []\<rparr>" "\<lparr>shape = [0, 2], data = []\<rparr>" "\<lparr>shape = [0, 4], data = []\<rparr>"
      "\<lparr>shape = [0, 2, 4], data = []\<rparr>" "\<lparr>shape = [0, 2, 2], data = []\<rparr>"
      "\<lparr>shape = [0, 2, 2, 2], data = []\<rparr>"] a b c d
  show ?thesis by simp
qed

end
